theory Spec2Isabelle
  imports Main "HOL-Library.AList"
begin

section \<open>Values: Python objects, JSON bodies and stored documents\<close>

text \<open>
  The team records of \<^verbatim>\<open>app/database/database.py\<close> are MongoDB documents, read back as
  Python dictionaries; the body of a submission is a decoded JSON object. Both are values of
  one type. A dictionary is an association list, so that the key order of the source
  (insertion order) is kept; a lookup reads the first entry of a key and an update replaces
  it in place or appends a new key at the end.

  Strings are lists of characters read as code points below 256. Floating point numbers
  and the \<^verbatim>\<open>_id\<close> field that the store adds to every document are not part of the model.
\<close>

record datetime =
  year :: nat
  month :: nat
  day :: nat
  hour :: nat
  minute :: nat
  second :: nat
  microsecond :: nat

datatype json =
    JNull
  | JBool bool
  | JInt int
  | JStr string
  | JTime datetime
  | JList "json list"
  | JObj "(string \<times> json) list"

type_synonym document = "(string \<times> json) list"

datatype error =
    HTTPException nat string
  | ValueError string
  | TypeError
  | KeyError
  | AttributeError
  | IndexError
  | WriteError

subsection \<open>The Python built-ins the source calls\<close>

text \<open>\<^verbatim>\<open>d.get(key, default)\<close> and \<^verbatim>\<open>d.get(key)\<close> on a dictionary.\<close>

definition py_get_default :: "document \<Rightarrow> string \<Rightarrow> json \<Rightarrow> json" where
  "py_get_default d key dflt = (case map_of d key of Some v \<Rightarrow> v | None \<Rightarrow> dflt)"

definition py_get :: "document \<Rightarrow> string \<Rightarrow> json" where
  "py_get d key = py_get_default d key JNull"

text \<open>\<^verbatim>\<open>key in d\<close> on a dictionary.\<close>

definition py_has_key :: "document \<Rightarrow> string \<Rightarrow> bool" where
  "py_has_key d key = (key \<in> set (map fst d))"

text \<open>Truth value of an object, as \<^verbatim>\<open>not x\<close> and \<^verbatim>\<open>x or y\<close> test it.\<close>

fun py_truthy :: "json \<Rightarrow> bool" where
  "py_truthy JNull = False"
| "py_truthy (JBool b) = b"
| "py_truthy (JInt i) = (i \<noteq> 0)"
| "py_truthy (JStr s) = (s \<noteq> [])"
| "py_truthy (JTime t) = True"
| "py_truthy (JList xs) = (xs \<noteq> [])"
| "py_truthy (JObj kvs) = (kvs \<noteq> [])"

text \<open>The integer an object counts as in arithmetic (\<^verbatim>\<open>bool\<close> is a subclass of \<^verbatim>\<open>int\<close>).\<close>

fun as_int :: "json \<Rightarrow> int option" where
  "as_int (JInt i) = Some i"
| "as_int (JBool b) = Some (if b then 1 else 0)"
| "as_int _ = None"

text \<open>\<^verbatim>\<open>s.split(".")\<close>: never empty, an empty segment between two separators.\<close>

fun split_on :: "char \<Rightarrow> string \<Rightarrow> string list" where
  "split_on c [] = [[]]"
| "split_on c (x # xs) =
     (if x = c then [] # split_on c xs
      else (case split_on c xs of
              w # ws \<Rightarrow> (x # w) # ws
            | [] \<Rightarrow> [[x]]))"

text \<open>\<^verbatim>\<open>sep.join(parts)\<close>.\<close>

fun join :: "string \<Rightarrow> string list \<Rightarrow> string" where
  "join sep [] = []"
| "join sep [x] = x"
| "join sep (x # y # ys) = x @ sep @ join sep (y # ys)"

text \<open>
  \<^verbatim>\<open>s.strip()\<close> removes the characters for which \<^verbatim>\<open>str.isspace\<close> holds from both ends:
  below 256 these are 9 to 13, 28 to 32, 133 and 160.
\<close>

definition isspace :: "char \<Rightarrow> bool" where
  "isspace c =
     (let n = (of_char c :: nat)
      in (9 \<le> n \<and> n \<le> 13) \<or> (28 \<le> n \<and> n \<le> 32) \<or> n = 133 \<or> n = 160)"

definition strip :: "string \<Rightarrow> string" where
  "strip s = rev (dropWhile isspace (rev (dropWhile isspace s)))"

text \<open>Decimal rendering of integers, \<^verbatim>\<open>str(n)\<close>.\<close>

definition digit_char :: "nat \<Rightarrow> char" where
  "digit_char n = ''0123456789'' ! n"

fun str_nat :: "nat \<Rightarrow> string" where
  "str_nat n = (if n < 10 then [digit_char n] else str_nat (n div 10) @ [digit_char (n mod 10)])"

definition str_int :: "int \<Rightarrow> string" where
  "str_int i = (if i < 0 then CHR ''-'' # str_nat (nat (- i)) else str_nat (nat i))"

definition zero_pad :: "nat \<Rightarrow> nat \<Rightarrow> string" where
  "zero_pad width n = (let s = str_nat n in replicate (width - length s) CHR ''0'' @ s)"

text \<open>
  \<^verbatim>\<open>repr\<close> of a string: single quotes unless the string holds a single quote and no double
  quote; the quote, the backslash, tab, newline and carriage return are escaped, every other
  unprintable character is written \<^verbatim>\<open>\xhh\<close>.
\<close>

definition hex_digit :: "nat \<Rightarrow> char" where
  "hex_digit n = ''0123456789abcdef'' ! n"

definition repr_char :: "char \<Rightarrow> char \<Rightarrow> string" where
  "repr_char quote c =
     (let n = (of_char c :: nat)
      in if c = quote \<or> c = CHR 0x5C then [CHR 0x5C, c]
         else if n = 9 then [CHR 0x5C, CHR ''t'']
         else if n = 10 then [CHR 0x5C, CHR ''n'']
         else if n = 13 then [CHR 0x5C, CHR ''r'']
         else if n < 32 \<or> n = 127 \<or> (128 \<le> n \<and> n \<le> 160) \<or> n = 173
           then [CHR 0x5C, CHR ''x'', hex_digit (n div 16), hex_digit (n mod 16)]
         else [c])"

definition repr_str :: "string \<Rightarrow> string" where
  "repr_str s =
     (let quote = (if CHR 0x27 \<in> set s \<and> CHR 0x22 \<notin> set s then CHR 0x22 else CHR 0x27)
      in quote # concat (map (repr_char quote) s) @ [quote])"

text \<open>\<^verbatim>\<open>str\<close> and \<^verbatim>\<open>repr\<close> of a naive \<^verbatim>\<open>datetime\<close>.\<close>

definition str_datetime :: "datetime \<Rightarrow> string" where
  "str_datetime t =
     zero_pad 4 (year t) @ ''-'' @ zero_pad 2 (month t) @ ''-'' @ zero_pad 2 (day t) @ '' ''
     @ zero_pad 2 (hour t) @ '':'' @ zero_pad 2 (minute t) @ '':'' @ zero_pad 2 (second t)
     @ (if microsecond t = 0 then [] else ''.'' @ zero_pad 6 (microsecond t))"

definition repr_datetime :: "datetime \<Rightarrow> string" where
  "repr_datetime t =
     ''datetime.datetime('' @
     join '', '' (map str_nat
       ([year t, month t, day t, hour t, minute t]
        @ (if microsecond t = 0 then (if second t = 0 then [] else [second t])
           else [second t, microsecond t])))
     @ '')''"

fun py_repr :: "json \<Rightarrow> string" where
  "py_repr JNull = ''None''"
| "py_repr (JBool b) = (if b then ''True'' else ''False'')"
| "py_repr (JInt i) = str_int i"
| "py_repr (JStr s) = repr_str s"
| "py_repr (JTime t) = repr_datetime t"
| "py_repr (JList xs) = ''['' @ join '', '' (map py_repr xs) @ '']''"
| "py_repr (JObj kvs) =
     ''{'' @ join '', '' (map (\<lambda>(k, v). repr_str k @ '': '' @ py_repr v) kvs) @ ''}''"

definition py_str :: "json \<Rightarrow> string" where
  "py_str v = (case v of JStr s \<Rightarrow> s | JTime t \<Rightarrow> str_datetime t | _ \<Rightarrow> py_repr v)"

text \<open>\<^verbatim>\<open>x in container\<close>: list membership, dictionary key, substring.\<close>

fun is_substring :: "string \<Rightarrow> string \<Rightarrow> bool" where
  "is_substring xs [] = (xs = [])"
| "is_substring xs (y # ys) = (take (length xs) (y # ys) = xs \<or> is_substring xs ys)"

definition py_str_in :: "string \<Rightarrow> json \<Rightarrow> error + bool" where
  "py_str_in s container =
     (case container of
        JList xs \<Rightarrow> Inr (JStr s \<in> set xs)
      | JObj kvs \<Rightarrow> Inr (py_has_key kvs s)
      | JStr t \<Rightarrow> Inr (is_substring s t)
      | _ \<Rightarrow> Inl TypeError)"

section \<open>The document store\<close>

text \<open>
  The collection \<^verbatim>\<open>teams\<close> is the list of its documents in insertion order. A query
  \<^verbatim>\<open>{"team_id": v}\<close> is an equality match on the field (query operators inside \<^verbatim>\<open>v\<close> and
  matches inside arrays are not modelled). \<^verbatim>\<open>update_one\<close> changes the first matching
  document, all operators at once or, when one of them is rejected, not at all; with no
  match it does nothing.
\<close>

type_synonym db = "document list"

datatype update_op = Inc string int | Push string json | Set string json

text \<open>
  An update at a dotted path descends through embedded documents, creates the missing ones
  and rejects a path through a value that is no document, or with an empty field name.
\<close>

fun upd_path :: "string list \<Rightarrow> (json option \<Rightarrow> error + json) \<Rightarrow> document \<Rightarrow> error + document" where
  "upd_path [] f d = Inl WriteError"
| "upd_path [k] f d =
     (if k = [] then Inl WriteError
      else (case f (map_of d k) of
              Inl e \<Rightarrow> Inl e
            | Inr v \<Rightarrow> Inr (AList.update k v d)))"
| "upd_path (k # k' # ks) f d =
     (if k = [] then Inl WriteError
      else (case map_of d k of
              None \<Rightarrow>
                (case upd_path (k' # ks) f [] of
                   Inl e \<Rightarrow> Inl e
                 | Inr sub \<Rightarrow> Inr (AList.update k (JObj sub) d))
            | Some (JObj sub) \<Rightarrow>
                (case upd_path (k' # ks) f sub of
                   Inl e \<Rightarrow> Inl e
                 | Inr sub' \<Rightarrow> Inr (AList.update k (JObj sub') d))
            | Some _ \<Rightarrow> Inl WriteError))"

fun apply_op :: "update_op \<Rightarrow> document \<Rightarrow> error + document" where
  "apply_op (Inc path n) d =
     upd_path (split_on CHR ''.'' path)
       (\<lambda>old. case old of
                 None \<Rightarrow> Inr (JInt n)
               | Some (JInt m) \<Rightarrow> Inr (JInt (m + n))
               | Some _ \<Rightarrow> Inl WriteError) d"
| "apply_op (Push path v) d =
     upd_path (split_on CHR ''.'' path)
       (\<lambda>old. case old of
                 None \<Rightarrow> Inr (JList [v])
               | Some (JList xs) \<Rightarrow> Inr (JList (xs @ [v]))
               | Some _ \<Rightarrow> Inl WriteError) d"
| "apply_op (Set path v) d = upd_path (split_on CHR ''.'' path) (\<lambda>old. Inr v) d"

fun apply_ops :: "update_op list \<Rightarrow> document \<Rightarrow> error + document" where
  "apply_ops [] d = Inr d"
| "apply_ops (u # us) d = (case apply_op u d of Inl e \<Rightarrow> Inl e | Inr d' \<Rightarrow> apply_ops us d')"

definition matches :: "json \<Rightarrow> document \<Rightarrow> bool" where
  "matches team_id d = (map_of d ''team_id'' = Some team_id)"

fun update_first :: "json \<Rightarrow> update_op list \<Rightarrow> db \<Rightarrow> error + db" where
  "update_first team_id us [] = Inr []"
| "update_first team_id us (d # ds) =
     (if matches team_id d
      then (case apply_ops us d of Inl e \<Rightarrow> Inl e | Inr d' \<Rightarrow> Inr (d' # ds))
      else (case update_first team_id us ds of Inl e \<Rightarrow> Inl e | Inr ds' \<Rightarrow> Inr (d # ds')))"

definition update_one :: "db \<Rightarrow> json \<Rightarrow> update_op list \<Rightarrow> (error + unit) \<times> db" where
  "update_one teams team_id us =
     (case update_first team_id us teams of
        Inl e \<Rightarrow> (Inl e, teams)
      | Inr teams' \<Rightarrow> (Inr (), teams'))"

definition find_one :: "db \<Rightarrow> json \<Rightarrow> document option" where
  "find_one teams team_id = find (matches team_id) teams"

text \<open>A stored date has millisecond precision.\<close>

definition bson_datetime :: "datetime \<Rightarrow> datetime" where
  "bson_datetime t = t\<lparr>microsecond := (microsecond t div 1000) * 1000\<rparr>"

section \<open>\<^verbatim>\<open>Database\<close> (app/database/database.py)\<close>

text \<open>
  Every method takes the collection and returns it with its result; a raised exception is
  the left summand, next to the collection as the exception leaves it.
\<close>

definition get_team :: "db \<Rightarrow> json \<Rightarrow> document option" where
  "get_team teams team_id = find_one teams team_id"

definition is_team_exists :: "db \<Rightarrow> json \<Rightarrow> bool" where
  "is_team_exists teams team_id = (get_team teams team_id \<noteq> None)"

definition new_team :: "nat \<Rightarrow> json \<Rightarrow> string \<Rightarrow> document" where
  "new_team count team_id team_name =
     [(''team_no'', JInt (int count)),
      (''team_id'', team_id),
      (''team_name'', JStr team_name),
      (''total_attempts'', JObj []),
      (''incorrect_attempts'', JObj []),
      (''cleared_challenges'', JList []),
      (''points'', JObj []),
      (''total_points'', JInt 0),
      (''time'', JObj []),
      (''hints'', JObj []),
      (''questions'', JObj [])]"

definition create_team :: "db \<Rightarrow> json \<Rightarrow> string option \<Rightarrow> json \<times> db" where
  "create_team teams team_id team_name =
     (let count = length teams;
          team_name = (case team_name of
                         None \<Rightarrow> ''Team - '' @ str_nat count
                       | Some n \<Rightarrow> if n = [] then ''Team - '' @ str_nat count else n);
          team = new_team count team_id team_name
      in (team_id, teams @ [team]))"

text \<open>The update document that \<^verbatim>\<open>update_score\<close> builds, \<^verbatim>\<open>points\<close> already signed.\<close>

definition update_operation :: "datetime \<Rightarrow> bool \<Rightarrow> int \<Rightarrow> string \<Rightarrow> update_op list" where
  "update_operation now is_correct points challenge_name =
     [Inc (''points.'' @ challenge_name) points,
      Inc ''total_points'' points,
      Inc (''total_attempts.'' @ challenge_name) 1,
      Inc (''incorrect_attempts.'' @ challenge_name) (if is_correct then 0 else 1)]
     @ (if is_correct
        then [Push ''cleared_challenges'' (JStr challenge_name),
              Set (''time.'' @ challenge_name) (JTime (bson_datetime now))]
        else [])"

definition update_score ::
  "db \<Rightarrow> datetime \<Rightarrow> json \<Rightarrow> bool \<Rightarrow> int \<Rightarrow> string \<Rightarrow> (error + unit) \<times> db" where
  "update_score teams now team_id is_correct points challenge_name =
     (case get_team teams team_id of
        None \<Rightarrow> (Inl (ValueError (''Team with ID '' @ py_str team_id @ '' not found.'')), teams)
      | Some team \<Rightarrow>
          (let points = (if is_correct then points else - points)
           in update_one teams team_id
                (update_operation now is_correct points challenge_name)))"

fun get_nested_loop :: "json \<Rightarrow> string list \<Rightarrow> json \<Rightarrow> json" where
  "get_nested_loop json_data [] dflt = json_data"
| "get_nested_loop json_data (key # keys) dflt =
     (case json_data of
        JObj d \<Rightarrow> get_nested_loop (py_get_default d key dflt) keys dflt
      | _ \<Rightarrow> dflt)"

definition get_nested_value :: "json \<Rightarrow> string \<Rightarrow> json \<Rightarrow> json" where
  "get_nested_value json_data path dflt =
     get_nested_loop json_data (split_on CHR ''.'' path) dflt"

definition update_hint_score ::
  "db \<Rightarrow> datetime \<Rightarrow> json \<Rightarrow> string \<Rightarrow> int \<Rightarrow> (error + unit) \<times> db" where
  "update_hint_score teams now team_id challenge_name points =
     (case update_score teams now team_id False points challenge_name of
        (Inl e, teams') \<Rightarrow> (Inl e, teams')
      | (Inr u, teams') \<Rightarrow> update_one teams' team_id [Inc (''hints.'' @ challenge_name) 1])"

section \<open>\<^verbatim>\<open>Challenge\<close> (app/base_challenge.py)\<close>

text \<open>
  The attributes of a challenge object that the engine reads. \<^verbatim>\<open>challenge_id\<close> is the class
  attribute, \<^verbatim>\<open>None\<close> until \<^verbatim>\<open>generate_all_question\<close> assigns it; a hint is a pair of its
  cost and its text.
\<close>

record challenge =
  challenge_id :: json
  points :: int
  penalty :: int
  hints :: "(int \<times> string) list"

text \<open>\<^verbatim>\<open>left | right\<close> on dictionaries: the keys of \<^verbatim>\<open>right\<close> replace or follow those of \<^verbatim>\<open>left\<close>.\<close>

definition dict_union :: "document \<Rightarrow> document \<Rightarrow> document" where
  "dict_union left right = fold (\<lambda>(k, v) acc. AList.update k v acc) right left"

definition hints_list_of :: "challenge \<Rightarrow> json list" where
  "hints_list_of self =
     map (\<lambda>(index, (hint_points, _)).
            JObj [(''hint_no'', JInt (int index + 1)), (''points'', JInt hint_points)])
         (enumerate 0 (hints self))"

definition generate_full_question :: "challenge \<Rightarrow> document \<Rightarrow> document" where
  "generate_full_question self question =
     (let additional_info =
            [(''challenge_id'', challenge_id self),
             (''points'', JInt (points self)),
             (''penalty'', JInt (penalty self)),
             (''hints'', JObj [(''count'', JInt (int (length (hints self)))),
                               (''hints_list'', JList (hints_list_of self))])]
      in dict_union question additional_info)"

section \<open>\<^verbatim>\<open>AllChallenges\<close> (app/all_challenges.py)\<close>

record all_challenges =
  challenges_id :: "string \<rightharpoonup> string"
  challenges_classes :: "string \<rightharpoonup> challenge"

text \<open>\<^verbatim>\<open>x in d\<close> for a request value and a dictionary with string keys: a list or a
  dictionary is unhashable, any other value that is no key is simply absent.\<close>

definition py_in_keys :: "json \<Rightarrow> (string \<rightharpoonup> 'a) \<Rightarrow> error + bool" where
  "py_in_keys x m =
     (case x of
        JStr s \<Rightarrow> Inr (m s \<noteq> None)
      | JList _ \<Rightarrow> Inl TypeError
      | JObj _ \<Rightarrow> Inl TypeError
      | _ \<Rightarrow> Inr False)"

text \<open>\<^verbatim>\<open>d[x]\<close> once \<^verbatim>\<open>x in d\<close> has been tested.\<close>

definition py_index :: "(string \<rightharpoonup> 'a) \<Rightarrow> json \<Rightarrow> error + 'a" where
  "py_index m x =
     (case x of
        JStr s \<Rightarrow> (case m s of Some v \<Rightarrow> Inr v | None \<Rightarrow> Inl KeyError)
      | JList _ \<Rightarrow> Inl TypeError
      | JObj _ \<Rightarrow> Inl TypeError
      | _ \<Rightarrow> Inl KeyError)"

text \<open>\<^verbatim>\<open>x + n\<close> for an object read from a document and an integer.\<close>

definition py_add_int :: "json \<Rightarrow> int \<Rightarrow> error + json" where
  "py_add_int x n = (case as_int x of Some m \<Rightarrow> Inr (JInt (m + n)) | None \<Rightarrow> Inl TypeError)"

definition validate_team_id :: "db \<Rightarrow> json \<Rightarrow> error + unit" where
  "validate_team_id teams team_id =
     (if team_id = JNull then Inl (HTTPException 422 ''team_id parameter missing.'')
      else if \<not> is_team_exists teams team_id then Inl (HTTPException 400 ''team_id invalid'')
      else Inr ())"

definition validate_team_and_challenge_id ::
  "all_challenges \<Rightarrow> db \<Rightarrow> json \<Rightarrow> json \<Rightarrow> error + unit" where
  "validate_team_and_challenge_id self teams team_id cid =
     (case validate_team_id teams team_id of
        Inl e \<Rightarrow> Inl e
      | Inr _ \<Rightarrow>
          if cid = JNull then Inl (HTTPException 422 ''challenge_id parameter missing.'')
          else (case py_in_keys cid (challenges_id self) of
                  Inl e \<Rightarrow> Inl e
                | Inr present \<Rightarrow>
                    if \<not> present then Inl (HTTPException 400 ''challenge_id invalid'')
                    else Inr ()))"

text \<open>The first loop of \<^verbatim>\<open>validate\<close>: every expected key is a key of the submission.\<close>

fun require_keys :: "string list \<Rightarrow> document \<Rightarrow> error + unit" where
  "require_keys [] data = Inr ()"
| "require_keys (key # keys) data =
     (if \<not> py_has_key data key
      then Inl (HTTPException 422 (''Missing required parameter: '' @ key))
      else require_keys keys data)"

text \<open>The two answers of \<^verbatim>\<open>validate\<close> after the comparison.\<close>

definition correct_answer :: "json \<Rightarrow> string \<Rightarrow> int \<Rightarrow> json \<Rightarrow> document" where
  "correct_answer cid challenge_name awarded new_total =
     [(''challenge_id'', cid),
      (''challenge_name'', JStr challenge_name),
      (''status'', JStr ''success''),
      (''message'', JStr ''Your answer is correct.''),
      (''points_awarded'', JInt awarded),
      (''total_score'', new_total)]"

definition incorrect_answer :: "json \<Rightarrow> string \<Rightarrow> int \<Rightarrow> json \<Rightarrow> document" where
  "incorrect_answer cid challenge_name deducted new_total =
     [(''challenge_id'', cid),
      (''challenge_name'', JStr challenge_name),
      (''status'', JStr ''failure''),
      (''message'', JStr ''Your answer is incorrect.''),
      (''penalty_points'', JInt deducted),
      (''total_score'', new_total)]"

text \<open>
  The second loop of \<^verbatim>\<open>validate\<close> with what follows it: the first expected value that
  differs from the submitted one ends the call with the penalty; past the last one the
  points are awarded.
\<close>

fun compare_loop ::
  "db \<Rightarrow> datetime \<Rightarrow> json \<Rightarrow> json \<Rightarrow> string \<Rightarrow> challenge \<Rightarrow> json \<Rightarrow> document
   \<Rightarrow> (string \<times> json) list \<Rightarrow> (error + document) \<times> db" where
  "compare_loop teams now team_id cid challenge_name challenge_cls total_score data [] =
     (case update_score teams now team_id True (points challenge_cls) challenge_name of
        (Inl e, teams') \<Rightarrow> (Inl e, teams')
      | (Inr _, teams') \<Rightarrow>
          (case py_add_int total_score (points challenge_cls) of
             Inl e \<Rightarrow> (Inl e, teams')
           | Inr new_total \<Rightarrow>
               (Inr (correct_answer cid challenge_name (points challenge_cls) new_total),
                teams')))"
| "compare_loop teams now team_id cid challenge_name challenge_cls total_score data
       ((key, val) # items) =
     (if strip (py_str (py_get data key)) \<noteq> strip (py_str val)
      then (case update_score teams now team_id False (penalty challenge_cls) challenge_name of
              (Inl e, teams') \<Rightarrow> (Inl e, teams')
            | (Inr _, teams') \<Rightarrow>
                (case py_add_int total_score (- penalty challenge_cls) of
                   Inl e \<Rightarrow> (Inl e, teams')
                 | Inr new_total \<Rightarrow>
                     (Inr (incorrect_answer cid challenge_name (penalty challenge_cls)
                             new_total),
                      teams')))
      else compare_loop teams now team_id cid challenge_name challenge_cls total_score data
             items)"

definition already_cleared :: "json \<Rightarrow> string \<Rightarrow> document" where
  "already_cleared cid challenge_name =
     [(''challenge_id'', cid),
      (''challenge_name'', JStr challenge_name),
      (''status'', JStr ''info''),
      (''message'', JStr ''You have already cleared this level.'')]"

definition validate :: "all_challenges \<Rightarrow> db \<Rightarrow> datetime \<Rightarrow> document \<Rightarrow> (error + document) \<times> db" where
  "validate self teams now data =
     (let cid = py_get data ''challenge_id'';
          team_id = py_get data ''team_id''
      in case validate_team_and_challenge_id self teams team_id cid of
           Inl e \<Rightarrow> (Inl e, teams)
         | Inr _ \<Rightarrow>
      (case get_team teams team_id of
           None \<Rightarrow> (Inl AttributeError, teams)
         | Some team \<Rightarrow>
      (let total_score = py_get_default team ''total_points'' (JInt 0);
           cleared_challenges = py_get team ''cleared_challenges''
       in case py_index (challenges_id self) cid of
            Inl e \<Rightarrow> (Inl e, teams)
          | Inr challenge_name \<Rightarrow>
       (case py_index (challenges_classes self) cid of
            Inl e \<Rightarrow> (Inl e, teams)
          | Inr challenge_cls \<Rightarrow>
       (case py_str_in challenge_name cleared_challenges of
            Inl e \<Rightarrow> (Inl e, teams)
          | Inr True \<Rightarrow>
              (Inr (already_cleared cid challenge_name @ [(''total_score'', total_score)]), teams)
          | Inr False \<Rightarrow>
       (let data_to_validate =
              get_nested_value (JObj team) (''data_to_validate.'' @ challenge_name) JNull
        in if \<not> py_truthy data_to_validate
           then (Inl (HTTPException 500
                   (''Data validation information is missing. '' @
                    ''Please make a GET request to /question to retrieve the necessary data.'')),
                 teams)
           else (case data_to_validate of
                   JObj items \<Rightarrow>
                     (case require_keys (map fst items) data of
                        Inl e \<Rightarrow> (Inl e, teams)
                      | Inr _ \<Rightarrow>
                          compare_loop teams now team_id cid challenge_name challenge_cls
                            total_score data items)
                 | _ \<Rightarrow> (Inl AttributeError, teams))))))))"

text \<open>The answers of \<^verbatim>\<open>get_hint\<close>: a hint, and the refusal of a hint out of order.\<close>

definition hint_response :: "json \<Rightarrow> string \<Rightarrow> int \<Rightarrow> string \<Rightarrow> json \<Rightarrow> document" where
  "hint_response cid challenge_name hint_no hint total_score =
     [(''challenge_id'', cid),
      (''challenge_name'', JStr challenge_name),
      (''status'', JStr ''sucess''),
      (''hint_no'', JInt hint_no),
      (''hint'', JStr hint),
      (''total_score'', total_score)]"

definition out_of_order :: document where
  "out_of_order =
     [(''status'', JStr ''failure''),
      (''message'',
       JList [JStr (''Hint request must follow sequential order.'' @
                    ''Middle hints cannot be requested.'')])]"

definition hint_range_error :: "nat \<Rightarrow> error" where
  "hint_range_error hints_count =
     HTTPException 400
       (if hints_count = 0 then ''No hints available for this level.''
        else if hints_count = 1 then ''There is only one hint available for this level.''
        else ''Invalid hint number. '' @ ''Please provide a hint number between 1 and ''
             @ str_nat hints_count @ ''.'')"

definition get_hint ::
  "all_challenges \<Rightarrow> db \<Rightarrow> datetime \<Rightarrow> json \<Rightarrow> json \<Rightarrow> int \<Rightarrow> (error + document) \<times> db" where
  "get_hint self teams now team_id cid hint_no =
     (case validate_team_and_challenge_id self teams team_id cid of
        Inl e \<Rightarrow> (Inl e, teams)
      | Inr _ \<Rightarrow>
     (case py_index (challenges_id self) cid of
        Inl e \<Rightarrow> (Inl e, teams)
      | Inr challenge_name \<Rightarrow>
     (case py_index (challenges_classes self) cid of
        Inl e \<Rightarrow> (Inl e, teams)
      | Inr challenge_cls \<Rightarrow>
     (case get_team teams team_id of
        None \<Rightarrow> (Inl AttributeError, teams)
      | Some team \<Rightarrow>
     (case py_str_in challenge_name (py_get team ''cleared_challenges'') of
        Inl e \<Rightarrow> (Inl e, teams)
      | Inr True \<Rightarrow> (Inr (already_cleared cid challenge_name), teams)
      | Inr False \<Rightarrow>
     (let hints_count = length (hints challenge_cls)
      in if 0 < hint_no \<and> hint_no \<le> int hints_count
         then
           (let hints_taken =
                  get_nested_value (JObj team) (''hints.'' @ challenge_name) (JInt 0)
            in case as_int hints_taken of
                 None \<Rightarrow> (Inl TypeError, teams)
               | Some taken \<Rightarrow>
                   if taken + 1 \<ge> hint_no
                   then
                     (let total_score = py_get_default team ''total_points'' (JInt 0);
                          (hint_cost, hint) = hints challenge_cls ! nat (hint_no - 1);
                          response = hint_response cid challenge_name hint_no hint total_score
                      in if taken + 1 = hint_no
                         then
                           (case py_add_int total_score (- hint_cost) of
                              Inl e \<Rightarrow> (Inl e, teams)
                            | Inr new_total \<Rightarrow>
                                (case update_hint_score teams now team_id challenge_name
                                        hint_cost of
                                   (Inl e, teams') \<Rightarrow> (Inl e, teams')
                                 | (Inr _, teams') \<Rightarrow>
                                     (Inr (AList.update ''total_score'' new_total
                                             (response @ [(''hint_cost'', JInt hint_cost)])),
                                      teams')))
                         else (Inr response, teams))
                   else
                     (Inr out_of_order, teams))
         else (Inl (hint_range_error hints_count), teams)))))))"

section \<open>Vocabulary of the properties\<close>

text \<open>
  The traversal as the description of \<^verbatim>\<open>get_nested_value\<close> words it: follow the segments,
  and give the default back as soon as a segment is missing or the value at hand is no
  dictionary.
\<close>

fun walk_spec :: "json \<Rightarrow> string list \<Rightarrow> json \<Rightarrow> json" where
  "walk_spec json_data [] dflt = json_data"
| "walk_spec json_data (key # keys) dflt =
     (case json_data of
        JObj d \<Rightarrow> (case map_of d key of None \<Rightarrow> dflt | Some v \<Rightarrow> walk_spec v keys dflt)
      | _ \<Rightarrow> dflt)"

fun is_dict :: "json \<Rightarrow> bool" where
  "is_dict (JObj d) = True"
| "is_dict _ = False"

text \<open>
  A challenge name is the name of a Python class: it is not empty and holds no dot, so
  \<^verbatim>\<open>points.<name>\<close> is a path of two segments.
\<close>

definition field_name :: "string \<Rightarrow> bool" where
  "field_name s = (s \<noteq> [] \<and> CHR ''.'' \<notin> set s)"

text \<open>
  The shape of a team record as \<^verbatim>\<open>create_team\<close> writes it and the updates keep it: an
  integer total, dictionaries of integers for the per-challenge counters, a list of cleared
  challenges and a dictionary of completion times.
\<close>

fun is_int :: "json \<Rightarrow> bool" where
  "is_int (JInt i) = True"
| "is_int _ = False"

fun int_field :: "json option \<Rightarrow> bool" where
  "int_field (Some (JInt i)) = True"
| "int_field _ = False"

fun int_counters :: "json option \<Rightarrow> bool" where
  "int_counters (Some (JObj m)) = list_all is_int (map snd m)"
| "int_counters _ = False"

fun list_field :: "json option \<Rightarrow> bool" where
  "list_field (Some (JList xs)) = True"
| "list_field _ = False"

fun dict_field :: "json option \<Rightarrow> bool" where
  "dict_field (Some (JObj m)) = True"
| "dict_field _ = False"

definition wf_team :: "document \<Rightarrow> bool" where
  "wf_team team =
     (int_field (map_of team ''total_points'')
      \<and> int_counters (map_of team ''points'')
      \<and> int_counters (map_of team ''total_attempts'')
      \<and> int_counters (map_of team ''incorrect_attempts'')
      \<and> int_counters (map_of team ''hints'')
      \<and> list_field (map_of team ''cleared_challenges'')
      \<and> dict_field (map_of team ''time''))"

text \<open>What the engine and the score board read from a team record.\<close>

definition int_val :: "json \<Rightarrow> int" where
  "int_val v = (case as_int v of Some i \<Rightarrow> i | None \<Rightarrow> 0)"

definition total_points_of :: "document \<Rightarrow> json" where
  "total_points_of team = py_get_default team ''total_points'' (JInt 0)"

definition points_of :: "document \<Rightarrow> string \<Rightarrow> json" where
  "points_of team p = get_nested_value (JObj team) (''points.'' @ p) (JInt 0)"

definition total_attempts_of :: "document \<Rightarrow> string \<Rightarrow> json" where
  "total_attempts_of team p = get_nested_value (JObj team) (''total_attempts.'' @ p) (JInt 0)"

definition incorrect_attempts_of :: "document \<Rightarrow> string \<Rightarrow> json" where
  "incorrect_attempts_of team p =
     get_nested_value (JObj team) (''incorrect_attempts.'' @ p) (JInt 0)"

definition hints_taken_of :: "document \<Rightarrow> string \<Rightarrow> json" where
  "hints_taken_of team p = get_nested_value (JObj team) (''hints.'' @ p) (JInt 0)"

definition cleared_of :: "document \<Rightarrow> json" where
  "cleared_of team = py_get team ''cleared_challenges''"

definition time_of :: "document \<Rightarrow> string \<Rightarrow> json" where
  "time_of team p = get_nested_value (JObj team) (''time.'' @ p) JNull"

text \<open>The new value of a well-shaped field under each update operator.\<close>

definition bump :: "string \<Rightarrow> int \<Rightarrow> json option \<Rightarrow> json" where
  "bump p n old =
     (case old of
        Some (JObj m) \<Rightarrow>
          JObj (AList.update p (JInt (int_val (py_get_default m p (JInt 0)) + n)) m)
      | _ \<Rightarrow> JNull)"

definition bump_top :: "int \<Rightarrow> json option \<Rightarrow> json" where
  "bump_top n old = (case old of Some (JInt k) \<Rightarrow> JInt (k + n) | _ \<Rightarrow> JNull)"

definition pushed :: "json \<Rightarrow> json option \<Rightarrow> json" where
  "pushed v old = (case old of Some (JList xs) \<Rightarrow> JList (xs @ [v]) | _ \<Rightarrow> JNull)"

definition put :: "string \<Rightarrow> json \<Rightarrow> json option \<Rightarrow> json" where
  "put p v old = (case old of Some (JObj m) \<Rightarrow> JObj (AList.update p v m) | _ \<Rightarrow> JNull)"

text \<open>The fields of a well-shaped record after \<^verbatim>\<open>update_operation\<close>.\<close>

definition scored :: "(string \<rightharpoonup> json) \<Rightarrow> datetime \<Rightarrow> bool \<Rightarrow> int \<Rightarrow> string \<Rightarrow> (string \<rightharpoonup> json)" where
  "scored f now is_correct n p =
     (let g = f(''points'' \<mapsto> bump p n (f ''points''),
                ''total_points'' \<mapsto> bump_top n (f ''total_points''),
                ''total_attempts'' \<mapsto> bump p 1 (f ''total_attempts''),
                ''incorrect_attempts'' \<mapsto>
                   bump p (if is_correct then 0 else 1) (f ''incorrect_attempts''))
      in if is_correct
         then g(''cleared_challenges'' \<mapsto> pushed (JStr p) (f ''cleared_challenges''),
                ''time'' \<mapsto> put p (JTime (bson_datetime now)) (f ''time''))
         else g)"

text \<open>
  The expected answers of a challenge, \<^verbatim>\<open>None\<close> when the record has none, and the test of
  the comparison loop of \<^verbatim>\<open>validate\<close> on one expected field.
\<close>

definition data_to_validate_of :: "document \<Rightarrow> string \<Rightarrow> json" where
  "data_to_validate_of team p = get_nested_value (JObj team) (''data_to_validate.'' @ p) JNull"

definition field_differs :: "document \<Rightarrow> string \<times> json \<Rightarrow> bool" where
  "field_differs data kv = (strip (py_str (py_get data (fst kv))) \<noteq> strip (py_str (snd kv)))"

text \<open>
  The per-challenge points of a record, the invariant that ties them to the total, and the
  collections that \<^verbatim>\<open>create_team\<close>, \<^verbatim>\<open>update_score\<close> and \<^verbatim>\<open>update_hint_score\<close> build from
  the empty one. An update that raises leaves the collection it has reached; the challenge
  names are class names.
\<close>

definition points_dict :: "document \<Rightarrow> (string \<times> json) list" where
  "points_dict team = (case map_of team ''points'' of Some (JObj m) \<Rightarrow> m | _ \<Rightarrow> [])"

definition score_inv :: "document \<Rightarrow> bool" where
  "score_inv team =
     (wf_team team
      \<and> distinct (map fst (points_dict team))
      \<and> list_all field_name (map fst (points_dict team))
      \<and> total_points_of team = JInt (sum_list (map (\<lambda>kv. int_val (snd kv)) (points_dict team))))"

inductive reachable :: "db \<Rightarrow> bool" where
  empty: "reachable []"
| create: "reachable teams \<Longrightarrow> reachable (snd (create_team teams team_id team_name))"
| score:
    "reachable teams \<Longrightarrow> field_name p \<Longrightarrow>
     reachable (snd (update_score teams now team_id is_correct pts p))"
| hint:
    "reachable teams \<Longrightarrow> field_name p \<Longrightarrow>
     reachable (snd (update_hint_score teams now team_id p pts))"

section \<open>Paths and dictionaries\<close>

lemma split_on_no_sep: "c \<notin> set s \<Longrightarrow> split_on c s = [s]"
  by (induction s) auto

lemma split_on_prefix: "c \<notin> set a \<Longrightarrow> split_on c (a @ c # b) = a # split_on c b"
  by (induction a) auto

lemma split_field_name:
  "CHR ''.'' \<notin> set a \<Longrightarrow> CHR ''.'' \<notin> set b \<Longrightarrow> split_on CHR ''.'' (a @ CHR ''.'' # b) = [a, b]"
  by (simp add: split_on_prefix split_on_no_sep)

section \<open>\<^verbatim>\<open>get_nested_value\<close>\<close>

lemma get_nested_loop_default: "\<not> is_dict dflt \<Longrightarrow> get_nested_loop dflt keys dflt = dflt"
  by (cases keys; cases dflt) simp_all

text \<open>With a default that is no dictionary the loop is the traversal described.\<close>

lemma get_nested_loop_walk:
  "\<not> is_dict dflt \<Longrightarrow> get_nested_loop json_data keys dflt = walk_spec json_data keys dflt"
proof (induction keys arbitrary: json_data)
  case Nil
  show ?case by simp
next
  case (Cons key keys)
  show ?case
  proof (cases json_data)
    case (JObj d)
    show ?thesis
    proof (cases "map_of d key")
      case None
      with JObj Cons.prems show ?thesis
        by (simp add: py_get_default_def get_nested_loop_default)
    next
      case (Some v)
      with JObj Cons show ?thesis
        by (simp add: py_get_default_def)
    qed
  qed simp_all
qed

text \<open>
  C8. \<^verbatim>\<open>get_nested_value\<close> is to return the default as soon as a segment of the path is
  missing. The loop instead stores the default as the current value and goes on with the
  next segment, so a default that is itself a dictionary is searched: in the empty record,
  with the path \<^verbatim>\<open>a.b\<close> and the default \<^verbatim>\<open>{"b": 1}\<close>, the segment \<^verbatim>\<open>a\<close> is missing and
  the call returns \<^verbatim>\<open>1\<close>, which is neither the default nor a value of the record.
\<close>

theorem get_nested_value_searches_default:
  "get_nested_value (JObj []) ''a.b'' (JObj [(''b'', JInt 1)]) = JInt 1
   \<and> walk_spec (JObj []) (split_on CHR ''.'' ''a.b'') (JObj [(''b'', JInt 1)])
       = JObj [(''b'', JInt 1)]"
  by (simp add: get_nested_value_def py_get_default_def)

section \<open>\<^verbatim>\<open>create_team\<close>\<close>

text \<open>
  C7, as the code has it. \<^verbatim>\<open>create_team\<close> appends one record to the collection, whatever
  the collection holds, and returns the team ID; the record carries the ID, a total of 0,
  empty per-challenge points, hints and attempt counters, and empty collections of cleared
  challenges and questions.
\<close>

theorem create_team_appends:
  "\<exists>team. create_team teams team_id team_name = (team_id, teams @ [team])
     \<and> map_of team ''team_id'' = Some team_id
     \<and> map_of team ''total_points'' = Some (JInt 0)
     \<and> map_of team ''points'' = Some (JObj [])
     \<and> map_of team ''hints'' = Some (JObj [])
     \<and> map_of team ''total_attempts'' = Some (JObj [])
     \<and> map_of team ''incorrect_attempts'' = Some (JObj [])
     \<and> map_of team ''cleared_challenges'' = Some (JList [])
     \<and> map_of team ''questions'' = Some (JObj [])"
  by (simp add: create_team_def new_team_def Let_def)

text \<open>
  C7, as stated, asks for a failure when the team ID is already present. Creating
  \<^verbatim>\<open>T1\<close> in a collection that already holds a team \<^verbatim>\<open>T1\<close> succeeds and leaves two records
  with that ID.
\<close>

theorem create_team_duplicate:
  "is_team_exists [new_team 0 (JStr ''T1'') ''A''] (JStr ''T1'')
   \<and> create_team [new_team 0 (JStr ''T1'') ''A''] (JStr ''T1'') (Some ''B'')
       = (JStr ''T1'', [new_team 0 (JStr ''T1'') ''A'', new_team 1 (JStr ''T1'') ''B''])
   \<and> length (filter (matches (JStr ''T1''))
               (snd (create_team [new_team 0 (JStr ''T1'') ''A''] (JStr ''T1'') (Some ''B'')))) = 2"
  by (simp add: create_team_def new_team_def is_team_exists_def get_team_def find_one_def
        matches_def Let_def)

section \<open>Updates of one document\<close>

lemma map_of_is_int:
  "list_all is_int (map snd m) \<Longrightarrow> map_of m p = Some v \<Longrightarrow> \<exists>k. v = JInt k"
proof (induction m)
  case Nil
  then show ?case by simp
next
  case (Cons x m)
  obtain k w where x: "x = (k, w)" by (cases x)
  show ?case
  proof (cases "k = p")
    case True
    with Cons.prems x have "is_int v" by simp
    then show ?thesis by (cases v) simp_all
  next
    case False
    with Cons x show ?thesis by simp
  qed
qed

lemma list_all_update:
  "list_all P (map snd m) \<Longrightarrow> P v \<Longrightarrow> list_all P (map snd (AList.update k v m))"
  by (induction m) auto

lemma int_field_cases: "int_field v \<Longrightarrow> \<exists>k. v = Some (JInt k)"
  by (cases v rule: int_field.cases) simp_all

lemma int_counters_cases:
  "int_counters v \<Longrightarrow> \<exists>m. v = Some (JObj m) \<and> list_all is_int (map snd m)"
  by (cases v rule: int_counters.cases) simp_all

lemma list_field_cases: "list_field v \<Longrightarrow> \<exists>xs. v = Some (JList xs)"
  by (cases v rule: list_field.cases) simp_all

lemma dict_field_cases: "dict_field v \<Longrightarrow> \<exists>m. v = Some (JObj m)"
  by (cases v rule: dict_field.cases) simp_all

lemma int_counters_dict: "int_counters v \<Longrightarrow> dict_field v"
  by (cases v rule: int_counters.cases) simp_all

lemma two_segments:
  "field_name a \<Longrightarrow> field_name p \<Longrightarrow> split_on CHR ''.'' (a @ CHR ''.'' # p) = [a, p]"
  by (simp add: field_name_def split_field_name)

lemma apply_inc_nested:
  assumes "field_name a" "field_name p" "int_counters (map_of d a)"
  shows "apply_op (Inc (a @ CHR ''.'' # p) n) d = Inr (AList.update a (bump p n (map_of d a)) d)"
proof -
  from int_counters_cases[OF assms(3)] obtain m
    where m: "map_of d a = Some (JObj m)" and ints: "list_all is_int (map snd m)" by blast
  note sp = two_segments[OF assms(1,2)]
  have ne: "a \<noteq> []" "p \<noteq> []" using assms(1,2) by (simp_all add: field_name_def)
  show ?thesis
  proof (cases "map_of m p")
    case None
    then show ?thesis
      by (simp add: sp ne m bump_def py_get_default_def int_val_def)
  next
    case (Some v)
    from map_of_is_int[OF ints Some] obtain k where "v = JInt k" by blast
    with Some show ?thesis
      by (simp add: sp ne m bump_def py_get_default_def int_val_def)
  qed
qed

lemma apply_inc_top:
  assumes "field_name a" "int_field (map_of d a)"
  shows "apply_op (Inc a n) d = Inr (AList.update a (bump_top n (map_of d a)) d)"
proof -
  from int_field_cases[OF assms(2)] obtain k where "map_of d a = Some (JInt k)" by blast
  with assms(1) show ?thesis
    by (simp add: field_name_def split_on_no_sep bump_top_def)
qed

lemma apply_push_top:
  assumes "field_name a" "list_field (map_of d a)"
  shows "apply_op (Push a v) d = Inr (AList.update a (pushed v (map_of d a)) d)"
proof -
  from list_field_cases[OF assms(2)] obtain xs where "map_of d a = Some (JList xs)" by blast
  with assms(1) show ?thesis
    by (simp add: field_name_def split_on_no_sep pushed_def)
qed

lemma apply_set_nested:
  assumes "field_name a" "field_name p" "dict_field (map_of d a)"
  shows "apply_op (Set (a @ CHR ''.'' # p) v) d = Inr (AList.update a (put p v (map_of d a)) d)"
proof -
  from dict_field_cases[OF assms(3)] obtain m where m: "map_of d a = Some (JObj m)" by blast
  note sp = two_segments[OF assms(1,2)]
  have ne: "a \<noteq> []" "p \<noteq> []" using assms(1,2) by (simp_all add: field_name_def)
  show ?thesis by (simp add: sp ne m put_def)
qed

lemma int_counters_bump: "int_counters v \<Longrightarrow> int_counters (Some (bump p n v))"
  by (cases v rule: int_counters.cases) (simp_all add: bump_def list_all_update)

lemma int_field_bump_top: "int_field v \<Longrightarrow> int_field (Some (bump_top n v))"
  by (cases v rule: int_field.cases) (simp_all add: bump_top_def)

lemma list_field_pushed: "list_field v \<Longrightarrow> list_field (Some (pushed x v))"
  by (cases v rule: list_field.cases) (simp_all add: pushed_def)

lemma dict_field_put: "dict_field v \<Longrightarrow> dict_field (Some (put p x v))"
  by (cases v rule: dict_field.cases) (simp_all add: put_def)

text \<open>The update document of \<^verbatim>\<open>update_score\<close> on a well-shaped record.\<close>

lemma apply_update_operation:
  assumes wf: "wf_team team" and p: "field_name p"
  shows "\<exists>team'. apply_ops (update_operation now is_correct n p) team = Inr team'
           \<and> map_of team' = scored (map_of team) now is_correct n p"
proof -
  have names: "field_name ''points''" "field_name ''total_points''"
    "field_name ''total_attempts''" "field_name ''incorrect_attempts''"
    "field_name ''cleared_challenges''" "field_name ''time''"
    by (simp_all add: field_name_def)
  from wf have f: "int_field (map_of team ''total_points'')"
    "int_counters (map_of team ''points'')"
    "int_counters (map_of team ''total_attempts'')"
    "int_counters (map_of team ''incorrect_attempts'')"
    "list_field (map_of team ''cleared_challenges'')"
    "dict_field (map_of team ''time'')"
    by (simp_all add: wf_team_def)
  define d1 where "d1 = AList.update ''points'' (bump p n (map_of team ''points'')) team"
  define d2 where "d2 = AList.update ''total_points'' (bump_top n (map_of team ''total_points'')) d1"
  define d3 where "d3 = AList.update ''total_attempts'' (bump p 1 (map_of team ''total_attempts'')) d2"
  define d4 where "d4 = AList.update ''incorrect_attempts''
      (bump p (if is_correct then 0 else 1) (map_of team ''incorrect_attempts'')) d3"
  define d5 where "d5 = AList.update ''cleared_challenges''
      (pushed (JStr p) (map_of team ''cleared_challenges'')) d4"
  define d6 where "d6 = AList.update ''time'' (put p (JTime (bson_datetime now)) (map_of team ''time'')) d5"
  have s1: "apply_op (Inc (''points.'' @ p) n) team = Inr d1"
    using apply_inc_nested[OF names(1) p f(2), of n] by (simp add: d1_def)
  have m1: "map_of d1 = (map_of team)(''points'' \<mapsto> bump p n (map_of team ''points''))"
    by (simp add: d1_def update_conv')
  have s2: "apply_op (Inc ''total_points'' n) d1 = Inr d2"
    using apply_inc_top[OF names(2), of d1 n] f(1) by (simp add: d2_def m1)
  have m2: "map_of d2 = (map_of d1)(''total_points'' \<mapsto> bump_top n (map_of team ''total_points''))"
    by (simp add: d2_def update_conv')
  have s3: "apply_op (Inc (''total_attempts.'' @ p) 1) d2 = Inr d3"
    using apply_inc_nested[OF names(3) p, of d2 1] f(3) by (simp add: d3_def m2 m1)
  have m3: "map_of d3 = (map_of d2)(''total_attempts'' \<mapsto> bump p 1 (map_of team ''total_attempts''))"
    by (simp add: d3_def update_conv')
  have s4: "apply_op (Inc (''incorrect_attempts.'' @ p) (if is_correct then 0 else 1)) d3 = Inr d4"
    using apply_inc_nested[OF names(4) p, of d3 "if is_correct then 0 else 1"] f(4)
    by (simp add: d4_def m3 m2 m1)
  have m4: "map_of d4 = (map_of d3)(''incorrect_attempts'' \<mapsto>
      bump p (if is_correct then 0 else 1) (map_of team ''incorrect_attempts''))"
    by (simp add: d4_def update_conv')
  have s5: "apply_op (Push ''cleared_challenges'' (JStr p)) d4 = Inr d5"
    using apply_push_top[OF names(5), of d4 "JStr p"] f(5) by (simp add: d5_def m4 m3 m2 m1)
  have m5: "map_of d5 = (map_of d4)(''cleared_challenges'' \<mapsto>
      pushed (JStr p) (map_of team ''cleared_challenges''))"
    by (simp add: d5_def update_conv')
  have s6: "apply_op (Set (''time.'' @ p) (JTime (bson_datetime now))) d5 = Inr d6"
    using apply_set_nested[OF names(6) p, of d5 "JTime (bson_datetime now)"] f(6)
    by (simp add: d6_def m5 m4 m3 m2 m1)
  have m6: "map_of d6 = (map_of d5)(''time'' \<mapsto> put p (JTime (bson_datetime now)) (map_of team ''time''))"
    by (simp add: d6_def update_conv')
  show ?thesis
  proof (cases is_correct)
    case True
    have "apply_ops (update_operation now is_correct n p) team = Inr d6"
      using s1 s2 s3 s4 s5 s6 True by (simp add: update_operation_def)
    moreover have "map_of d6 = scored (map_of team) now is_correct n p"
      using True by (simp add: scored_def m6 m5 m4 m3 m2 m1 Let_def)
    ultimately show ?thesis by blast
  next
    case False
    have "apply_ops (update_operation now is_correct n p) team = Inr d4"
      using s1 s2 s3 s4 False by (simp add: update_operation_def)
    moreover have "map_of d4 = scored (map_of team) now is_correct n p"
      using False by (simp add: scored_def m4 m3 m2 m1 Let_def)
    ultimately show ?thesis by blast
  qed
qed

section \<open>Reading a team record\<close>

lemma nested_read:
  assumes "field_name a" "field_name p" "map_of d a = Some (JObj m)"
  shows "get_nested_value (JObj d) (a @ CHR ''.'' # p) dflt = py_get_default m p dflt"
  using assms by (simp add: get_nested_value_def two_segments py_get_default_def)

lemma counter_is_int:
  assumes "list_all is_int (map snd m)"
  shows "py_get_default m p (JInt 0) = JInt (int_val (py_get_default m p (JInt 0)))"
proof (cases "map_of m p")
  case None
  then show ?thesis by (simp add: py_get_default_def int_val_def)
next
  case (Some v)
  from map_of_is_int[OF assms Some] obtain k where "v = JInt k" by blast
  with Some show ?thesis by (simp add: py_get_default_def int_val_def)
qed

lemma read_counter:
  assumes "field_name a" "field_name p" "int_counters (map_of d a)"
  shows "get_nested_value (JObj d) (a @ CHR ''.'' # p) (JInt 0)
         = JInt (int_val (get_nested_value (JObj d) (a @ CHR ''.'' # p) (JInt 0)))"
proof -
  from int_counters_cases[OF assms(3)] obtain m
    where m: "map_of d a = Some (JObj m)" and ints: "list_all is_int (map snd m)" by blast
  show ?thesis
    using counter_is_int[OF ints, of p] by (simp add: nested_read[OF assms(1,2) m])
qed

lemma read_bump:
  assumes "field_name a" "field_name p" "int_counters (map_of d a)"
    and "map_of d' a = Some (bump p n (map_of d a))"
  shows "get_nested_value (JObj d') (a @ CHR ''.'' # p) (JInt 0)
         = JInt (int_val (get_nested_value (JObj d) (a @ CHR ''.'' # p) (JInt 0)) + n)"
proof -
  from int_counters_cases[OF assms(3)] obtain m
    where m: "map_of d a = Some (JObj m)" and ints: "list_all is_int (map snd m)" by blast
  have m': "map_of d' a
      = Some (JObj (AList.update p (JInt (int_val (py_get_default m p (JInt 0)) + n)) m))"
    using assms(4) by (simp add: m bump_def)
  show ?thesis
    by (simp add: nested_read[OF assms(1,2) m] nested_read[OF assms(1,2) m']
          py_get_default_def update_conv')
qed

lemma read_same:
  assumes "field_name a" "field_name p" "dict_field (map_of d a)" "map_of d' a = map_of d a"
  shows "get_nested_value (JObj d') (a @ CHR ''.'' # p) dflt
         = get_nested_value (JObj d) (a @ CHR ''.'' # p) dflt"
proof -
  from dict_field_cases[OF assms(3)] obtain m where m: "map_of d a = Some (JObj m)" by blast
  with assms(4) have m': "map_of d' a = Some (JObj m)" by simp
  show ?thesis
    by (simp add: nested_read[OF assms(1,2) m] nested_read[OF assms(1,2) m'])
qed

lemma read_put:
  assumes "field_name a" "field_name p" "dict_field (map_of d a)"
    and "map_of d' a = Some (put p v (map_of d a))"
  shows "get_nested_value (JObj d') (a @ CHR ''.'' # p) dflt = v"
proof -
  from dict_field_cases[OF assms(3)] obtain m where m: "map_of d a = Some (JObj m)" by blast
  have m': "map_of d' a = Some (JObj (AList.update p v m))"
    using assms(4) by (simp add: m put_def)
  show ?thesis
    by (simp add: nested_read[OF assms(1,2) m'] py_get_default_def update_conv')
qed

lemma field_names:
  "field_name ''points''" "field_name ''total_points''" "field_name ''total_attempts''"
  "field_name ''incorrect_attempts''" "field_name ''cleared_challenges''"
  "field_name ''time''" "field_name ''hints''" "field_name ''data_to_validate''"
  by (simp_all add: field_name_def)

lemma wf_scored:
  assumes "wf_team team" "map_of team' = scored (map_of team) now is_correct n p"
  shows "wf_team team'"
  using assms
  by (simp add: wf_team_def scored_def Let_def int_counters_bump int_field_bump_top
        list_field_pushed dict_field_put)

section \<open>Updates of the collection\<close>

lemma find_matches: "find (matches team_id) teams = Some team \<Longrightarrow> matches team_id team"
  by (induction teams) (auto split: if_splits)

lemma update_first_hit:
  assumes "find (matches team_id) teams = Some team" "apply_ops us team = Inr team'"
    and "matches team_id team'"
  shows "\<exists>teams'. update_first team_id us teams = Inr teams'
           \<and> find (matches team_id) teams' = Some team'"
  using assms
proof (induction teams)
  case Nil
  then show ?case by simp
next
  case (Cons d ds)
  show ?case
  proof (cases "matches team_id d")
    case True
    with Cons.prems show ?thesis by simp
  next
    case False
    with Cons.prems have "find (matches team_id) ds = Some team" by simp
    from Cons.IH[OF this Cons.prems(2,3)] obtain ds'
      where "update_first team_id us ds = Inr ds'" "find (matches team_id) ds' = Some team'"
      by blast
    with False show ?thesis by simp
  qed
qed

lemma update_first_fail:
  assumes "find (matches team_id) teams = Some team" "apply_ops us team = Inl e"
  shows "update_first team_id us teams = Inl e"
  using assms by (induction teams) (auto split: if_splits)

lemma update_first_miss:
  "find (matches team_id) teams = None \<Longrightarrow> update_first team_id us teams = Inr teams"
  by (induction teams) (auto split: if_splits)

text \<open>A property of documents that the operators keep is kept in the whole collection.\<close>

lemma update_first_keeps:
  assumes "\<And>d d'. Q d \<Longrightarrow> apply_ops us d = Inr d' \<Longrightarrow> Q d'"
    and "list_all Q teams" "update_first team_id us teams = Inr teams'"
  shows "list_all Q teams'"
  using assms(2,3)
proof (induction teams arbitrary: teams')
  case Nil
  then show ?case by simp
next
  case (Cons d ds)
  show ?case
  proof (cases "matches team_id d")
    case True
    with Cons.prems obtain d' where "apply_ops us d = Inr d'" "teams' = d' # ds"
      by (auto split: sum.splits)
    with Cons.prems(1) assms(1)[of d d'] show ?thesis by simp
  next
    case False
    with Cons.prems obtain ds' where "update_first team_id us ds = Inr ds'" "teams' = d # ds'"
      by (auto split: sum.splits)
    with Cons.prems(1) Cons.IH[of ds'] show ?thesis by simp
  qed
qed

lemma update_one_keeps:
  assumes "\<And>d d'. Q d \<Longrightarrow> apply_ops us d = Inr d' \<Longrightarrow> Q d'" and "list_all Q teams"
  shows "list_all Q (snd (update_one teams team_id us))"
proof (cases "update_first team_id us teams")
  case (Inl e)
  with assms(2) show ?thesis by (simp add: update_one_def)
next
  case (Inr teams')
  from update_first_keeps[of Q us, OF assms(1) assms(2) Inr] Inr show ?thesis
    by (simp add: update_one_def)
qed

lemma matches_scored:
  "matches team_id team \<Longrightarrow> map_of team' = scored (map_of team) now is_correct n p
   \<Longrightarrow> matches team_id team'"
  by (simp add: matches_def scored_def Let_def)

section \<open>\<^verbatim>\<open>update_score\<close> and \<^verbatim>\<open>update_hint_score\<close>\<close>

lemma update_score_found:
  assumes "get_team teams team_id = Some team" "wf_team team" "field_name p"
  shows "\<exists>teams' team'.
           update_score teams now team_id is_correct pts p = (Inr (), teams')
           \<and> get_team teams' team_id = Some team'
           \<and> map_of team' = scored (map_of team) now is_correct (if is_correct then pts else - pts) p"
proof -
  let ?n = "if is_correct then pts else - pts"
  from assms(1) have found: "find (matches team_id) teams = Some team"
    by (simp add: get_team_def find_one_def)
  from apply_update_operation[OF assms(2,3), of now is_correct ?n] obtain team'
    where ops: "apply_ops (update_operation now is_correct ?n p) team = Inr team'"
      and map: "map_of team' = scored (map_of team) now is_correct ?n p" by blast
  from matches_scored[OF find_matches[OF found] map] have "matches team_id team'" .
  from update_first_hit[OF found ops this] obtain teams'
    where "update_first team_id (update_operation now is_correct ?n p) teams = Inr teams'"
      and "find (matches team_id) teams' = Some team'" by blast
  with assms(1) map show ?thesis
    by (simp add: update_score_def update_one_def get_team_def find_one_def Let_def)
qed

lemma update_score_missing:
  "get_team teams team_id = None \<Longrightarrow>
   update_score teams now team_id is_correct pts p
   = (Inl (ValueError (''Team with ID '' @ py_str team_id @ '' not found.'')), teams)"
  by (simp add: update_score_def)

lemma update_hint_score_found:
  assumes "get_team teams team_id = Some team" "wf_team team" "field_name p"
  shows "\<exists>teams' team'.
           update_hint_score teams now team_id p cost = (Inr (), teams')
           \<and> get_team teams' team_id = Some team'
           \<and> map_of team' = (scored (map_of team) now False (- cost) p)
                 (''hints'' \<mapsto> bump p 1 (map_of team ''hints''))"
proof -
  from update_score_found[OF assms, of now False cost] obtain teams1 team1
    where s: "update_score teams now team_id False cost p = (Inr (), teams1)"
      and g: "get_team teams1 team_id = Some team1"
      and m: "map_of team1 = scored (map_of team) now False (- cost) p" by auto
  from g have found: "find (matches team_id) teams1 = Some team1"
    by (simp add: get_team_def find_one_def)
  have h: "map_of team1 ''hints'' = map_of team ''hints''"
    by (simp add: m scored_def Let_def)
  from assms(2) have "int_counters (map_of team1 ''hints'')" by (simp add: h wf_team_def)
  from apply_inc_nested[OF field_names(7) assms(3) this, of 1]
  have ops: "apply_ops [Inc (''hints.'' @ p) 1] team1
      = Inr (AList.update ''hints'' (bump p 1 (map_of team ''hints'')) team1)"
    by (simp add: h)
  have "matches team_id (AList.update ''hints'' (bump p 1 (map_of team ''hints'')) team1)"
    using find_matches[OF found] by (simp add: matches_def update_conv')
  from update_first_hit[OF found ops this] obtain teams2
    where "update_first team_id [Inc (''hints.'' @ p) 1] teams1 = Inr teams2"
      and "find (matches team_id) teams2
           = Some (AList.update ''hints'' (bump p 1 (map_of team ''hints'')) team1)" by blast
  with s m show ?thesis
    by (simp add: update_hint_score_def update_one_def get_team_def find_one_def update_conv')
qed

lemma scored_reads:
  assumes wf: "wf_team team" and p: "field_name p"
    and m: "map_of team' = scored (map_of team) now is_correct n p"
  shows "points_of team' p = JInt (int_val (points_of team p) + n)"
    and "total_points_of team' = JInt (int_val (total_points_of team) + n)"
    and "total_attempts_of team' p = JInt (int_val (total_attempts_of team p) + 1)"
    and "incorrect_attempts_of team' p
         = JInt (int_val (incorrect_attempts_of team p) + (if is_correct then 0 else 1))"
    and "hints_taken_of team' p = hints_taken_of team p"
    and "is_correct \<Longrightarrow> \<exists>xs. cleared_of team = JList xs \<and> cleared_of team' = JList (xs @ [JStr p])"
    and "is_correct \<Longrightarrow> time_of team' p = JTime (bson_datetime now)"
    and "\<not> is_correct \<Longrightarrow> cleared_of team' = cleared_of team"
    and "\<not> is_correct \<Longrightarrow> time_of team' p = time_of team p"
proof -
  from wf have f: "int_field (map_of team ''total_points'')"
    "int_counters (map_of team ''points'')"
    "int_counters (map_of team ''total_attempts'')"
    "int_counters (map_of team ''incorrect_attempts'')"
    "int_counters (map_of team ''hints'')"
    "list_field (map_of team ''cleared_challenges'')"
    "dict_field (map_of team ''time'')"
    by (simp_all add: wf_team_def)
  have "map_of team' ''points'' = Some (bump p n (map_of team ''points''))"
    by (simp add: m scored_def Let_def)
  from read_bump[OF field_names(1) p f(2) this]
  show "points_of team' p = JInt (int_val (points_of team p) + n)"
    by (simp add: points_of_def)
  from int_field_cases[OF f(1)] obtain k where "map_of team ''total_points'' = Some (JInt k)"
    by blast
  then show "total_points_of team' = JInt (int_val (total_points_of team) + n)"
    by (simp add: total_points_of_def py_get_default_def m scored_def Let_def bump_top_def
          int_val_def)
  have "map_of team' ''total_attempts'' = Some (bump p 1 (map_of team ''total_attempts''))"
    by (simp add: m scored_def Let_def)
  from read_bump[OF field_names(3) p f(3) this]
  show "total_attempts_of team' p = JInt (int_val (total_attempts_of team p) + 1)"
    by (simp add: total_attempts_of_def)
  have "map_of team' ''incorrect_attempts''
        = Some (bump p (if is_correct then 0 else 1) (map_of team ''incorrect_attempts''))"
    by (simp add: m scored_def Let_def)
  from read_bump[OF field_names(4) p f(4) this]
  show "incorrect_attempts_of team' p
        = JInt (int_val (incorrect_attempts_of team p) + (if is_correct then 0 else 1))"
    by (simp add: incorrect_attempts_of_def)
  have "map_of team' ''hints'' = map_of team ''hints''"
    by (simp add: m scored_def Let_def)
  from read_same[OF field_names(7) p int_counters_dict[OF f(5)] this]
  show "hints_taken_of team' p = hints_taken_of team p"
    by (simp add: hints_taken_of_def)
  from list_field_cases[OF f(6)] obtain xs
    where xs: "map_of team ''cleared_challenges'' = Some (JList xs)" by blast
  show "\<exists>xs. cleared_of team = JList xs \<and> cleared_of team' = JList (xs @ [JStr p])"
    if "is_correct"
    using that xs
    by (simp add: cleared_of_def py_get_def py_get_default_def m scored_def Let_def pushed_def)
  show "time_of team' p = JTime (bson_datetime now)" if "is_correct"
  proof -
    from that have "map_of team' ''time''
        = Some (put p (JTime (bson_datetime now)) (map_of team ''time''))"
      by (simp add: m scored_def Let_def)
    from read_put[OF field_names(6) p f(7) this] show ?thesis by (simp add: time_of_def)
  qed
  show "cleared_of team' = cleared_of team" if "\<not> is_correct"
    using that by (simp add: cleared_of_def py_get_def py_get_default_def m scored_def Let_def)
  show "time_of team' p = time_of team p" if "\<not> is_correct"
  proof -
    from that have "map_of team' ''time'' = map_of team ''time''"
      by (simp add: m scored_def Let_def)
    from read_same[OF field_names(6) p f(7) this] show ?thesis by (simp add: time_of_def)
  qed
qed

text \<open>
  C4. On an existing team, \<^verbatim>\<open>update_score\<close> adds the points, signed by the outcome, to the
  challenge's points and to the total, counts one more attempt, counts one more incorrect
  attempt exactly when the answer is wrong and, exactly when it is right, appends the
  challenge to the cleared ones and records the completion time. On a team that does not
  exist it raises the \<^verbatim>\<open>ValueError\<close> naming the team and leaves the collection as it was.
\<close>

theorem update_score_spec:
  "(get_team teams team_id = Some team \<and> wf_team team \<and> field_name p \<longrightarrow>
      (\<exists>teams' team'.
         update_score teams now team_id is_correct pts p = (Inr (), teams')
         \<and> get_team teams' team_id = Some team'
         \<and> points_of team' p
             = JInt (int_val (points_of team p) + (if is_correct then pts else - pts))
         \<and> total_points_of team'
             = JInt (int_val (total_points_of team) + (if is_correct then pts else - pts))
         \<and> total_attempts_of team' p = JInt (int_val (total_attempts_of team p) + 1)
         \<and> incorrect_attempts_of team' p
             = JInt (int_val (incorrect_attempts_of team p) + (if is_correct then 0 else 1))
         \<and> (if is_correct
              then (\<exists>xs. cleared_of team = JList xs \<and> cleared_of team' = JList (xs @ [JStr p]))
                   \<and> time_of team' p = JTime (bson_datetime now)
              else cleared_of team' = cleared_of team \<and> time_of team' p = time_of team p)))
   \<and> (get_team teams team_id = None \<longrightarrow>
        update_score teams now team_id is_correct pts p
        = (Inl (ValueError (''Team with ID '' @ py_str team_id @ '' not found.'')), teams))"
proof (intro conjI impI)
  assume a: "get_team teams team_id = Some team \<and> wf_team team \<and> field_name p"
  then have g: "get_team teams team_id = Some team" and wf: "wf_team team"
    and p: "field_name p" by simp_all
  let ?n = "if is_correct then pts else - pts"
  from update_score_found[OF g wf p, of now is_correct pts] obtain teams' team'
    where u: "update_score teams now team_id is_correct pts p = (Inr (), teams')"
      and g': "get_team teams' team_id = Some team'"
      and m: "map_of team' = scored (map_of team) now is_correct ?n p" by blast
  note r = scored_reads[OF wf p m]
  have "if is_correct
        then (\<exists>xs. cleared_of team = JList xs \<and> cleared_of team' = JList (xs @ [JStr p]))
             \<and> time_of team' p = JTime (bson_datetime now)
        else cleared_of team' = cleared_of team \<and> time_of team' p = time_of team p"
    using r(6-9) by (cases is_correct) simp_all
  with u g' r(1-4) show "\<exists>teams' team'.
         update_score teams now team_id is_correct pts p = (Inr (), teams')
         \<and> get_team teams' team_id = Some team'
         \<and> points_of team' p = JInt (int_val (points_of team p) + ?n)
         \<and> total_points_of team' = JInt (int_val (total_points_of team) + ?n)
         \<and> total_attempts_of team' p = JInt (int_val (total_attempts_of team p) + 1)
         \<and> incorrect_attempts_of team' p
             = JInt (int_val (incorrect_attempts_of team p) + (if is_correct then 0 else 1))
         \<and> (if is_correct
              then (\<exists>xs. cleared_of team = JList xs \<and> cleared_of team' = JList (xs @ [JStr p]))
                   \<and> time_of team' p = JTime (bson_datetime now)
              else cleared_of team' = cleared_of team \<and> time_of team' p = time_of team p)"
    by blast
next
  assume "get_team teams team_id = None"
  then show "update_score teams now team_id is_correct pts p
        = (Inl (ValueError (''Team with ID '' @ py_str team_id @ '' not found.'')), teams)"
    by (rule update_score_missing)
qed

text \<open>
  C4 at a team fresh from \<^verbatim>\<open>create_team\<close> that clears \<^verbatim>\<open>Base69\<close> for 200 points, and at an
  empty collection.
\<close>

theorem update_score_spec_witness:
  "get_team [new_team 0 (JStr ''T1'') ''A''] (JStr ''T1'') = Some (new_team 0 (JStr ''T1'') ''A'')
   \<and> wf_team (new_team 0 (JStr ''T1'') ''A'')
   \<and> field_name ''Base69''
   \<and> (\<exists>teams' team'.
         update_score [new_team 0 (JStr ''T1'') ''A'']
           \<lparr>year = 2024, month = 5, day = 17, hour = 10, minute = 30, second = 0,
            microsecond = 123456\<rparr>
           (JStr ''T1'') True 200 ''Base69'' = (Inr (), teams')
         \<and> get_team teams' (JStr ''T1'') = Some team'
         \<and> points_of team' ''Base69'' = JInt 200
         \<and> total_points_of team' = JInt 200
         \<and> total_attempts_of team' ''Base69'' = JInt 1
         \<and> incorrect_attempts_of team' ''Base69'' = JInt 0
         \<and> cleared_of team' = JList [JStr ''Base69'']
         \<and> time_of team' ''Base69''
             = JTime \<lparr>year = 2024, month = 5, day = 17, hour = 10, minute = 30, second = 0,
                      microsecond = 123000\<rparr>)
   \<and> get_team [] (JStr ''T9'') = None
   \<and> update_score []
        \<lparr>year = 2024, month = 5, day = 17, hour = 10, minute = 30, second = 0,
         microsecond = 123456\<rparr>
        (JStr ''T9'') True 200 ''Base69''
      = (Inl (ValueError ''Team with ID T9 not found.''), [])"
proof -
  let ?team = "new_team 0 (JStr ''T1'') ''A''"
  let ?now = "\<lparr>year = 2024, month = 5, day = 17, hour = 10, minute = 30, second = 0,
               microsecond = 123456\<rparr>"
  have g: "get_team [?team] (JStr ''T1'') = Some ?team"
    by (simp add: get_team_def find_one_def matches_def new_team_def)
  have wf: "wf_team ?team" by (simp add: wf_team_def new_team_def)
  have p: "field_name ''Base69''" by (simp add: field_name_def)
  have n: "get_team [] (JStr ''T9'') = None" by (simp add: get_team_def find_one_def)
  have old: "points_of ?team ''Base69'' = JInt 0" "total_points_of ?team = JInt 0"
    "total_attempts_of ?team ''Base69'' = JInt 0" "incorrect_attempts_of ?team ''Base69'' = JInt 0"
    "cleared_of ?team = JList []"
    by (simp_all add: points_of_def total_points_of_def total_attempts_of_def
          incorrect_attempts_of_def cleared_of_def get_nested_value_def new_team_def
          py_get_def py_get_default_def)
  from update_score_spec[of "[?team]" "JStr ''T1''" ?team "''Base69''" ?now True 200] g wf p
  obtain teams' team' where
    "update_score [?team] ?now (JStr ''T1'') True 200 ''Base69'' = (Inr (), teams')"
    "get_team teams' (JStr ''T1'') = Some team'"
    "points_of team' ''Base69'' = JInt 200"
    "total_points_of team' = JInt 200"
    "total_attempts_of team' ''Base69'' = JInt 1"
    "incorrect_attempts_of team' ''Base69'' = JInt 0"
    "cleared_of team' = JList [JStr ''Base69'']"
    "time_of team' ''Base69'' = JTime (bson_datetime ?now)"
    by (auto simp: old int_val_def)
  moreover have "bson_datetime ?now
      = \<lparr>year = 2024, month = 5, day = 17, hour = 10, minute = 30, second = 0,
         microsecond = 123000\<rparr>"
    by (simp add: bson_datetime_def)
  moreover from update_score_spec[of "[]" "JStr ''T9''" ?team "''Base69''" ?now True 200] n
  have "update_score [] ?now (JStr ''T9'') True 200 ''Base69''
      = (Inl (ValueError ''Team with ID T9 not found.''), [])"
    by (simp add: py_str_def)
  ultimately show ?thesis using g wf p n by auto
qed

section \<open>\<^verbatim>\<open>validate\<close> and \<^verbatim>\<open>get_hint\<close>: the checks before scoring\<close>

lemma validate_ids_ok:
  assumes "team_id \<noteq> JNull" "get_team teams team_id = Some team" "challenges_id self c = Some p"
  shows "validate_team_and_challenge_id self teams team_id (JStr c) = Inr ()"
  using assms
  by (simp add: validate_team_and_challenge_id_def validate_team_id_def is_team_exists_def
        py_in_keys_def)

lemma cleared_in:
  "cleared_of team = JList xs \<Longrightarrow>
   py_str_in p (py_get team ''cleared_challenges'') = Inr (JStr p \<in> set xs)"
  by (simp add: cleared_of_def py_str_in_def)

text \<open>
  C3. Once the challenge's name is among the team's cleared challenges, \<^verbatim>\<open>validate\<close> and
  \<^verbatim>\<open>get_hint\<close> (whatever the hint number) answer with the status \<^verbatim>\<open>info\<close> and the message
  that the level is already cleared, and return the collection as they found it, so no
  total, points, hint count or attempt counter has changed.
\<close>

theorem cleared_is_terminal:
  assumes "py_get data ''team_id'' = team_id" "py_get data ''challenge_id'' = JStr c"
    and "team_id \<noteq> JNull" "get_team teams team_id = Some team"
    and "challenges_id self c = Some p" "challenges_classes self c = Some cls"
    and "cleared_of team = JList xs" "JStr p \<in> set xs"
  shows "validate self teams now data
           = (Inr (already_cleared (JStr c) p @ [(''total_score'', total_points_of team)]), teams)
         \<and> get_hint self teams now team_id (JStr c) hint_no
           = (Inr (already_cleared (JStr c) p), teams)
         \<and> map_of (already_cleared (JStr c) p) ''status'' = Some (JStr ''info'')
         \<and> map_of (already_cleared (JStr c) p) ''message''
           = Some (JStr ''You have already cleared this level.'')"
proof -
  note ids = validate_ids_ok[OF assms(3,4,5)]
  from cleared_in[OF assms(7), of p] assms(8)
  have cl: "py_str_in p (py_get team ''cleared_challenges'') = Inr True" by simp
  have "validate self teams now data
        = (Inr (already_cleared (JStr c) p @ [(''total_score'', total_points_of team)]), teams)"
    by (simp add: validate_def assms(1,2,4,5,6) ids cl py_index_def total_points_of_def)
  moreover have "get_hint self teams now team_id (JStr c) hint_no
        = (Inr (already_cleared (JStr c) p), teams)"
    by (simp add: get_hint_def assms(4,5,6) ids cl py_index_def)
  ultimately show ?thesis by (simp add: already_cleared_def)
qed

text \<open>
  C3 at a team that has cleared \<^verbatim>\<open>Base69\<close>, with a submission and with a request for
  hint 1.
\<close>

theorem cleared_is_terminal_witness:
  "validate
     \<lparr>challenges_id = [''1'' \<mapsto> ''Base69''],
      challenges_classes = [''1'' \<mapsto> \<lparr>challenge_id = JStr ''1'', points = 200, penalty = 40, hints = []\<rparr>]\<rparr>
     [[(''team_id'', JStr ''T1''), (''cleared_challenges'', JList [JStr ''Base69'']),
       (''total_points'', JInt 200)]]
     \<lparr>year = 2024, month = 5, day = 17, hour = 10, minute = 30, second = 0, microsecond = 0\<rparr>
     [(''team_id'', JStr ''T1''), (''challenge_id'', JStr ''1''), (''encoded_string'', JStr ''x'')]
   = (Inr [(''challenge_id'', JStr ''1''), (''challenge_name'', JStr ''Base69''),
           (''status'', JStr ''info''),
           (''message'', JStr ''You have already cleared this level.''),
           (''total_score'', JInt 200)],
      [[(''team_id'', JStr ''T1''), (''cleared_challenges'', JList [JStr ''Base69'']),
        (''total_points'', JInt 200)]])
   \<and> get_hint
     \<lparr>challenges_id = [''1'' \<mapsto> ''Base69''],
      challenges_classes = [''1'' \<mapsto> \<lparr>challenge_id = JStr ''1'', points = 200, penalty = 40, hints = []\<rparr>]\<rparr>
     [[(''team_id'', JStr ''T1''), (''cleared_challenges'', JList [JStr ''Base69'']),
       (''total_points'', JInt 200)]]
     \<lparr>year = 2024, month = 5, day = 17, hour = 10, minute = 30, second = 0, microsecond = 0\<rparr>
     (JStr ''T1'') (JStr ''1'') 1
   = (Inr [(''challenge_id'', JStr ''1''), (''challenge_name'', JStr ''Base69''),
           (''status'', JStr ''info''),
           (''message'', JStr ''You have already cleared this level.'')],
      [[(''team_id'', JStr ''T1''), (''cleared_challenges'', JList [JStr ''Base69'']),
        (''total_points'', JInt 200)]])"
proof -
  let ?self = "\<lparr>challenges_id = [''1'' \<mapsto> ''Base69''],
      challenges_classes = [''1'' \<mapsto> \<lparr>challenge_id = JStr ''1'', points = 200, penalty = 40, hints = []\<rparr>]\<rparr>"
  let ?team = "[(''team_id'', JStr ''T1''), (''cleared_challenges'', JList [JStr ''Base69'']),
       (''total_points'', JInt 200)]"
  let ?data = "[(''team_id'', JStr ''T1''), (''challenge_id'', JStr ''1''),
       (''encoded_string'', JStr ''x'')]"
  have h: "py_get ?data ''team_id'' = JStr ''T1''" "py_get ?data ''challenge_id'' = JStr ''1''"
    "JStr ''T1'' \<noteq> JNull" "get_team [?team] (JStr ''T1'') = Some ?team"
    "challenges_id ?self ''1'' = Some ''Base69''"
    "challenges_classes ?self ''1''
       = Some \<lparr>challenge_id = JStr ''1'', points = 200, penalty = 40, hints = []\<rparr>"
    "cleared_of ?team = JList [JStr ''Base69'']" "JStr ''Base69'' \<in> set [JStr ''Base69'']"
    by (simp_all add: py_get_def py_get_default_def get_team_def find_one_def matches_def
          cleared_of_def)
  from cleared_is_terminal[OF h, where hint_no = 1] show ?thesis
    by (simp add: already_cleared_def total_points_of_def py_get_default_def)
qed

lemma require_keys_ok:
  "\<forall>k\<in>set keys. py_has_key data k \<Longrightarrow> require_keys keys data = Inr ()"
  by (induction keys) simp_all

lemma require_keys_fail:
  "find (\<lambda>k. \<not> py_has_key data k) keys = Some k \<Longrightarrow>
   require_keys keys data = Inl (HTTPException 422 (''Missing required parameter: '' @ k))"
  by (induction keys) (auto split: if_splits)

lemma find_missing:
  "\<exists>k\<in>set keys. \<not> py_has_key data k \<Longrightarrow>
   \<exists>k. find (\<lambda>k. \<not> py_has_key data k) keys = Some k \<and> k \<in> set keys \<and> \<not> py_has_key data k"
  by (induction keys) auto

text \<open>
  C6. For a challenge the team has not cleared: when the record holds no expected answers
  for it, \<^verbatim>\<open>validate\<close> fails with the error 500 that asks for a GET of the question first;
  when it holds them and a key of theirs is missing from the submission, \<^verbatim>\<open>validate\<close>
  fails with the error 422 that names the first such key. Both failures return the
  collection unchanged.
\<close>

theorem validate_needs_data_and_fields:
  assumes "py_get data ''team_id'' = team_id" "py_get data ''challenge_id'' = JStr c"
    and "team_id \<noteq> JNull" "get_team teams team_id = Some team"
    and "challenges_id self c = Some p" "challenges_classes self c = Some cls"
    and "cleared_of team = JList xs" "JStr p \<notin> set xs"
  shows "(data_to_validate_of team p = JNull \<longrightarrow>
            validate self teams now data
            = (Inl (HTTPException 500
                 (''Data validation information is missing. '' @
                  ''Please make a GET request to /question to retrieve the necessary data.'')),
               teams))
         \<and> (data_to_validate_of team p = JObj items
              \<and> (\<exists>k\<in>set (map fst items). \<not> py_has_key data k) \<longrightarrow>
            (\<exists>k. find (\<lambda>k. \<not> py_has_key data k) (map fst items) = Some k
                \<and> k \<in> set (map fst items) \<and> \<not> py_has_key data k
                \<and> validate self teams now data
                  = (Inl (HTTPException 422 (''Missing required parameter: '' @ k)), teams)))"
proof (intro conjI impI)
  note ids = validate_ids_ok[OF assms(3,4,5)]
  from cleared_in[OF assms(7), of p] assms(8)
  have cl: "py_str_in p (py_get team ''cleared_challenges'') = Inr False" by simp
  {
    assume "data_to_validate_of team p = JNull"
    then have "get_nested_value (JObj team) (''data_to_validate.'' @ p) JNull = JNull"
      by (simp add: data_to_validate_of_def)
    then show "validate self teams now data
            = (Inl (HTTPException 500
                 (''Data validation information is missing. '' @
                  ''Please make a GET request to /question to retrieve the necessary data.'')),
               teams)"
      by (simp add: validate_def assms(1,2,4,5,6) ids cl py_index_def)
  next
    assume a: "data_to_validate_of team p = JObj items
               \<and> (\<exists>k\<in>set (map fst items). \<not> py_has_key data k)"
    then have dv: "get_nested_value (JObj team) (''data_to_validate.'' @ p) JNull = JObj items"
      by (simp add: data_to_validate_of_def)
    from a have ne: "items \<noteq> []" by auto
    from a find_missing[of "map fst items" data] obtain k
      where k: "find (\<lambda>k. \<not> py_has_key data k) (map fst items) = Some k"
        "k \<in> set (map fst items)" "\<not> py_has_key data k" by blast
    have "validate self teams now data
          = (Inl (HTTPException 422 (''Missing required parameter: '' @ k)), teams)"
      using dv ne require_keys_fail[OF k(1)]
      by (simp add: validate_def assms(1,2,4,5,6) ids cl py_index_def)
    with k show "\<exists>k. find (\<lambda>k. \<not> py_has_key data k) (map fst items) = Some k
                \<and> k \<in> set (map fst items) \<and> \<not> py_has_key data k
                \<and> validate self teams now data
                  = (Inl (HTTPException 422 (''Missing required parameter: '' @ k)), teams)"
      by blast
  }
qed

text \<open>
  C6 at a team with no expected answers, and at a team whose expected answers for
  \<^verbatim>\<open>Base69\<close> have two keys of which the submission holds the first only.
\<close>

theorem validate_needs_data_and_fields_witness:
  "validate
     \<lparr>challenges_id = [''1'' \<mapsto> ''Base69''],
      challenges_classes = [''1'' \<mapsto> \<lparr>challenge_id = JStr ''1'', points = 200, penalty = 40, hints = []\<rparr>]\<rparr>
     [new_team 0 (JStr ''T1'') ''A'']
     \<lparr>year = 2024, month = 5, day = 17, hour = 10, minute = 30, second = 0, microsecond = 0\<rparr>
     [(''team_id'', JStr ''T1''), (''challenge_id'', JStr ''1''), (''encoded_string'', JStr ''x'')]
   = (Inl (HTTPException 500
        (''Data validation information is missing. '' @
         ''Please make a GET request to /question to retrieve the necessary data.'')),
      [new_team 0 (JStr ''T1'') ''A''])
   \<and> validate
     \<lparr>challenges_id = [''1'' \<mapsto> ''Base69''],
      challenges_classes = [''1'' \<mapsto> \<lparr>challenge_id = JStr ''1'', points = 200, penalty = 40, hints = []\<rparr>]\<rparr>
     [new_team 0 (JStr ''T1'') ''A'' @
      [(''data_to_validate'',
        JObj [(''Base69'', JObj [(''encoded_string'', JStr ''x''), (''decoded_string'', JStr ''y'')])])]]
     \<lparr>year = 2024, month = 5, day = 17, hour = 10, minute = 30, second = 0, microsecond = 0\<rparr>
     [(''team_id'', JStr ''T1''), (''challenge_id'', JStr ''1''), (''encoded_string'', JStr ''x'')]
   = (Inl (HTTPException 422 ''Missing required parameter: decoded_string''),
      [new_team 0 (JStr ''T1'') ''A'' @
       [(''data_to_validate'',
         JObj [(''Base69'', JObj [(''encoded_string'', JStr ''x''), (''decoded_string'', JStr ''y'')])])]])"
proof -
  let ?self = "\<lparr>challenges_id = [''1'' \<mapsto> ''Base69''],
      challenges_classes = [''1'' \<mapsto> \<lparr>challenge_id = JStr ''1'', points = 200, penalty = 40, hints = []\<rparr>]\<rparr>"
  let ?t1 = "new_team 0 (JStr ''T1'') ''A''"
  let ?items = "[(''encoded_string'', JStr ''x''), (''decoded_string'', JStr ''y'')]"
  let ?t2 = "?t1 @ [(''data_to_validate'', JObj [(''Base69'', JObj ?items)])]"
  let ?data = "[(''team_id'', JStr ''T1''), (''challenge_id'', JStr ''1''),
       (''encoded_string'', JStr ''x'')]"
  have d: "py_get ?data ''team_id'' = JStr ''T1''" "py_get ?data ''challenge_id'' = JStr ''1''"
    "JStr ''T1'' \<noteq> JNull"
    by (simp_all add: py_get_def py_get_default_def)
  have r: "challenges_id ?self ''1'' = Some ''Base69''"
    "challenges_classes ?self ''1''
       = Some \<lparr>challenge_id = JStr ''1'', points = 200, penalty = 40, hints = []\<rparr>"
    by simp_all
  have g1: "get_team [?t1] (JStr ''T1'') = Some ?t1"
    and c1: "cleared_of ?t1 = JList []" "JStr ''Base69'' \<notin> set []"
    and a1: "data_to_validate_of ?t1 ''Base69'' = JNull"
    by (simp_all add: get_team_def find_one_def matches_def cleared_of_def new_team_def
          py_get_def py_get_default_def data_to_validate_of_def get_nested_value_def)
  have g2: "get_team [?t2] (JStr ''T1'') = Some ?t2"
    and c2: "cleared_of ?t2 = JList []"
    and a2: "data_to_validate_of ?t2 ''Base69'' = JObj ?items"
    and m2: "\<exists>k\<in>set (map fst ?items). \<not> py_has_key ?data k"
    by (simp_all add: get_team_def find_one_def matches_def cleared_of_def new_team_def
          py_get_def py_get_default_def data_to_validate_of_def get_nested_value_def
          py_has_key_def)
  from validate_needs_data_and_fields[OF d g1 r c1, where items = ?items] a1
  have "validate ?self [?t1]
     \<lparr>year = 2024, month = 5, day = 17, hour = 10, minute = 30, second = 0, microsecond = 0\<rparr>
     ?data
   = (Inl (HTTPException 500
        (''Data validation information is missing. '' @
         ''Please make a GET request to /question to retrieve the necessary data.'')), [?t1])"
    by blast
  moreover from validate_needs_data_and_fields[OF d g2 r c2 c1(2), where items = ?items] a2 m2
  have "validate ?self [?t2]
     \<lparr>year = 2024, month = 5, day = 17, hour = 10, minute = 30, second = 0, microsecond = 0\<rparr>
     ?data
   = (Inl (HTTPException 422 ''Missing required parameter: decoded_string''), [?t2])"
    by (auto simp: py_has_key_def)
  ultimately show ?thesis by simp
qed

section \<open>\<^verbatim>\<open>validate\<close>: comparison and scoring\<close>

lemma py_add_total:
  assumes "wf_team team"
  shows "py_add_int (total_points_of team) n = Inr (JInt (int_val (total_points_of team) + n))"
proof -
  from assms have "int_field (map_of team ''total_points'')" by (simp add: wf_team_def)
  from int_field_cases[OF this] obtain k where "map_of team ''total_points'' = Some (JInt k)"
    by blast
  then show ?thesis
    by (simp add: py_add_int_def total_points_of_def py_get_default_def int_val_def)
qed

lemma compare_loop_outcome:
  assumes "get_team teams team_id = Some team" "wf_team team" "field_name p"
  shows "compare_loop teams now team_id cid p cls (total_points_of team) data items =
     (if list_ex (field_differs data) items
      then (Inr (incorrect_answer cid p (penalty cls)
                   (JInt (int_val (total_points_of team) - penalty cls))),
            snd (update_score teams now team_id False (penalty cls) p))
      else (Inr (correct_answer cid p (points cls)
                   (JInt (int_val (total_points_of team) + points cls))),
            snd (update_score teams now team_id True (points cls) p)))"
proof (induction items)
  case Nil
  from update_score_found[OF assms, of now True "points cls"] obtain teams'
    where "update_score teams now team_id True (points cls) p = (Inr (), teams')" by blast
  then show ?case by (simp add: py_add_total[OF assms(2)])
next
  case (Cons kv items)
  obtain key val where kv: "kv = (key, val)" by (cases kv)
  from update_score_found[OF assms, of now False "penalty cls"] obtain teams'
    where "update_score teams now team_id False (penalty cls) p = (Inr (), teams')" by blast
  with Cons kv show ?case
    by (simp add: py_add_total[OF assms(2)] field_differs_def)
qed

lemma validate_reaches_comparison:
  assumes "py_get data ''team_id'' = team_id" "py_get data ''challenge_id'' = JStr c"
    and "team_id \<noteq> JNull" "get_team teams team_id = Some team"
    and "challenges_id self c = Some p" "challenges_classes self c = Some cls"
    and "cleared_of team = JList xs" "JStr p \<notin> set xs"
    and "data_to_validate_of team p = JObj items" "items \<noteq> []"
    and "\<forall>k\<in>set (map fst items). py_has_key data k"
  shows "validate self teams now data
         = compare_loop teams now team_id (JStr c) p cls (total_points_of team) data items"
proof -
  note ids = validate_ids_ok[OF assms(3,4,5)]
  from cleared_in[OF assms(7), of p] assms(8)
  have cl: "py_str_in p (py_get team ''cleared_challenges'') = Inr False" by simp
  from assms(9)
  have dv: "get_nested_value (JObj team) (''data_to_validate.'' @ p) JNull = JObj items"
    by (simp add: data_to_validate_of_def)
  show ?thesis
    using dv assms(10) require_keys_ok[OF assms(11)]
    by (simp add: validate_def assms(1,2,4,5,6) ids cl py_index_def total_points_of_def)
qed

text \<open>
  C1. For a challenge the team has not cleared, with expected answers on record (a
  non-empty dictionary, what the guard of \<^verbatim>\<open>validate\<close> lets pass) whose keys are all in the
  submission: the expected values are compared in the order of the record with the
  submitted ones, both as strings stripped of surrounding white space. If one differs,
  \<^verbatim>\<open>update_score\<close> is applied once, with the penalty and an incorrect answer, and the
  answer has the status \<^verbatim>\<open>failure\<close> and the total before the submission less the penalty.
  If none differs, \<^verbatim>\<open>update_score\<close> is applied with the points and a correct answer, and the
  answer has the status \<^verbatim>\<open>success\<close> and the total before the submission plus the points.
\<close>

theorem validate_compares_and_scores:
  assumes "py_get data ''team_id'' = team_id" "py_get data ''challenge_id'' = JStr c"
    and "team_id \<noteq> JNull" "get_team teams team_id = Some team"
    and "challenges_id self c = Some p" "challenges_classes self c = Some cls"
    and "cleared_of team = JList xs" "JStr p \<notin> set xs"
    and "data_to_validate_of team p = JObj items" "items \<noteq> []"
    and "\<forall>k\<in>set (map fst items). py_has_key data k"
    and "wf_team team" "field_name p"
  shows "\<exists>resp teams'.
           validate self teams now data = (Inr resp, teams')
           \<and> (if list_ex (field_differs data) items
                then update_score teams now team_id False (penalty cls) p = (Inr (), teams')
                     \<and> resp = incorrect_answer (JStr c) p (penalty cls)
                               (JInt (int_val (total_points_of team) - penalty cls))
                     \<and> map_of resp ''status'' = Some (JStr ''failure'')
                     \<and> map_of resp ''total_score''
                         = Some (JInt (int_val (total_points_of team) - penalty cls))
                else update_score teams now team_id True (points cls) p = (Inr (), teams')
                     \<and> resp = correct_answer (JStr c) p (points cls)
                               (JInt (int_val (total_points_of team) + points cls))
                     \<and> map_of resp ''status'' = Some (JStr ''success'')
                     \<and> map_of resp ''total_score''
                         = Some (JInt (int_val (total_points_of team) + points cls)))"
proof -
  note v = validate_reaches_comparison[OF assms(1-11), of now]
  note c = compare_loop_outcome[OF assms(4,12,13), of now "JStr c" cls data items]
  show ?thesis
  proof (cases "list_ex (field_differs data) items")
    case True
    from update_score_found[OF assms(4,12,13), of now False "penalty cls"] obtain teams'
      where "update_score teams now team_id False (penalty cls) p = (Inr (), teams')" by blast
    with True v c show ?thesis by (simp add: incorrect_answer_def)
  next
    case False
    from update_score_found[OF assms(4,12,13), of now True "points cls"] obtain teams'
      where "update_score teams now team_id True (points cls) p = (Inr (), teams')" by blast
    with False v c show ?thesis by (simp add: correct_answer_def)
  qed
qed

text \<open>
  C1 at a fresh team with the expected answers of \<^verbatim>\<open>Base69\<close> on record: a submission whose
  second field is wrong, and one that is right up to surrounding blanks.
\<close>

theorem validate_compares_and_scores_witness:
  "(\<exists>teams'.
      validate
        \<lparr>challenges_id = [''1'' \<mapsto> ''Base69''],
         challenges_classes =
           [''1'' \<mapsto> \<lparr>challenge_id = JStr ''1'', points = 200, penalty = 40, hints = []\<rparr>]\<rparr>
        [new_team 0 (JStr ''T1'') ''A'' @
         [(''data_to_validate'',
           JObj [(''Base69'',
                  JObj [(''encoded_string'', JStr ''abc''), (''decoded_string'', JStr ''xyz'')])])]]
        \<lparr>year = 2024, month = 5, day = 17, hour = 10, minute = 30, second = 0, microsecond = 0\<rparr>
        [(''team_id'', JStr ''T1''), (''challenge_id'', JStr ''1''),
         (''encoded_string'', JStr ''abc''), (''decoded_string'', JStr ''nope'')]
      = (Inr [(''challenge_id'', JStr ''1''), (''challenge_name'', JStr ''Base69''),
              (''status'', JStr ''failure''), (''message'', JStr ''Your answer is incorrect.''),
              (''penalty_points'', JInt 40), (''total_score'', JInt (- 40))],
         teams')
      \<and> update_score
          [new_team 0 (JStr ''T1'') ''A'' @
           [(''data_to_validate'',
             JObj [(''Base69'',
                    JObj [(''encoded_string'', JStr ''abc''), (''decoded_string'', JStr ''xyz'')])])]]
          \<lparr>year = 2024, month = 5, day = 17, hour = 10, minute = 30, second = 0, microsecond = 0\<rparr>
          (JStr ''T1'') False 40 ''Base69'' = (Inr (), teams'))
   \<and> (\<exists>teams'.
      validate
        \<lparr>challenges_id = [''1'' \<mapsto> ''Base69''],
         challenges_classes =
           [''1'' \<mapsto> \<lparr>challenge_id = JStr ''1'', points = 200, penalty = 40, hints = []\<rparr>]\<rparr>
        [new_team 0 (JStr ''T1'') ''A'' @
         [(''data_to_validate'',
           JObj [(''Base69'',
                  JObj [(''encoded_string'', JStr ''abc''), (''decoded_string'', JStr ''xyz'')])])]]
        \<lparr>year = 2024, month = 5, day = 17, hour = 10, minute = 30, second = 0, microsecond = 0\<rparr>
        [(''team_id'', JStr ''T1''), (''challenge_id'', JStr ''1''),
         (''encoded_string'', JStr '' abc  ''), (''decoded_string'', JStr ''xyz'')]
      = (Inr [(''challenge_id'', JStr ''1''), (''challenge_name'', JStr ''Base69''),
              (''status'', JStr ''success''), (''message'', JStr ''Your answer is correct.''),
              (''points_awarded'', JInt 200), (''total_score'', JInt 200)],
         teams')
      \<and> update_score
          [new_team 0 (JStr ''T1'') ''A'' @
           [(''data_to_validate'',
             JObj [(''Base69'',
                    JObj [(''encoded_string'', JStr ''abc''), (''decoded_string'', JStr ''xyz'')])])]]
          \<lparr>year = 2024, month = 5, day = 17, hour = 10, minute = 30, second = 0, microsecond = 0\<rparr>
          (JStr ''T1'') True 200 ''Base69'' = (Inr (), teams'))"
proof -
  let ?cls = "\<lparr>challenge_id = JStr ''1'', points = 200, penalty = 40, hints = []\<rparr>"
  let ?self = "\<lparr>challenges_id = [''1'' \<mapsto> ''Base69''],
                challenges_classes = [''1'' \<mapsto> ?cls]\<rparr>"
  let ?items = "[(''encoded_string'', JStr ''abc''), (''decoded_string'', JStr ''xyz'')]"
  let ?team = "new_team 0 (JStr ''T1'') ''A'' @
         [(''data_to_validate'', JObj [(''Base69'', JObj ?items)])]"
  let ?now = "\<lparr>year = 2024, month = 5, day = 17, hour = 10, minute = 30, second = 0,
               microsecond = 0\<rparr>"
  let ?wrong = "[(''team_id'', JStr ''T1''), (''challenge_id'', JStr ''1''),
         (''encoded_string'', JStr ''abc''), (''decoded_string'', JStr ''nope'')]"
  let ?right = "[(''team_id'', JStr ''T1''), (''challenge_id'', JStr ''1''),
         (''encoded_string'', JStr '' abc  ''), (''decoded_string'', JStr ''xyz'')]"
  have t: "JStr ''T1'' \<noteq> JNull" "get_team [?team] (JStr ''T1'') = Some ?team"
    "challenges_id ?self ''1'' = Some ''Base69''" "challenges_classes ?self ''1'' = Some ?cls"
    "cleared_of ?team = JList []" "JStr ''Base69'' \<notin> set []"
    "data_to_validate_of ?team ''Base69'' = JObj ?items" "?items \<noteq> []"
    by (simp_all add: get_team_def find_one_def matches_def cleared_of_def new_team_def
          py_get_def py_get_default_def data_to_validate_of_def get_nested_value_def)
  have s: "wf_team ?team" "field_name ''Base69''"
    by (simp_all add: wf_team_def new_team_def field_name_def)
  have total: "int_val (total_points_of ?team) = 0"
    by (simp add: total_points_of_def py_get_default_def new_team_def int_val_def)
  have w: "py_get ?wrong ''team_id'' = JStr ''T1''" "py_get ?wrong ''challenge_id'' = JStr ''1''"
    and wk: "\<forall>k\<in>set (map fst ?items). py_has_key ?wrong k"
    and wd: "list_ex (field_differs ?wrong) ?items"
    by (simp_all add: py_get_def py_get_default_def py_has_key_def field_differs_def py_str_def
          strip_def isspace_def)
  have r: "py_get ?right ''team_id'' = JStr ''T1''" "py_get ?right ''challenge_id'' = JStr ''1''"
    and rk: "\<forall>k\<in>set (map fst ?items). py_has_key ?right k"
    and rd: "\<not> list_ex (field_differs ?right) ?items"
    by (simp_all add: py_get_def py_get_default_def py_has_key_def field_differs_def py_str_def
          strip_def isspace_def)
  from validate_compares_and_scores[OF w t wk s, where now = ?now] wd
  have "\<exists>teams'. validate ?self [?team] ?now ?wrong
          = (Inr (incorrect_answer (JStr ''1'') ''Base69'' 40 (JInt (- 40))), teams')
        \<and> update_score [?team] ?now (JStr ''T1'') False 40 ''Base69'' = (Inr (), teams')"
    by (auto simp: total)
  moreover from validate_compares_and_scores[OF r t rk s, where now = ?now] rd
  have "\<exists>teams'. validate ?self [?team] ?now ?right
          = (Inr (correct_answer (JStr ''1'') ''Base69'' 200 (JInt 200)), teams')
        \<and> update_score [?team] ?now (JStr ''T1'') True 200 ''Base69'' = (Inr (), teams')"
    by (auto simp: total)
  ultimately show ?thesis by (simp add: incorrect_answer_def correct_answer_def)
qed

text \<open>
  C10. In the comparison of \<^verbatim>\<open>validate\<close> the submitted value and the expected value both
  go through \<^verbatim>\<open>str\<close> and \<^verbatim>\<open>strip\<close>: the answer is the success exactly when, for every
  expected field, the two renderings are equal after stripping. So a submitted number
  matches the expected string of its digits.
\<close>

theorem validate_compares_str_renderings:
  assumes "py_get data ''team_id'' = team_id" "py_get data ''challenge_id'' = JStr c"
    and "team_id \<noteq> JNull" "get_team teams team_id = Some team"
    and "challenges_id self c = Some p" "challenges_classes self c = Some cls"
    and "cleared_of team = JList xs" "JStr p \<notin> set xs"
    and "data_to_validate_of team p = JObj items" "items \<noteq> []"
    and "\<forall>k\<in>set (map fst items). py_has_key data k"
    and "wf_team team" "field_name p"
  shows "\<exists>resp teams'.
           validate self teams now data = (Inr resp, teams')
           \<and> (map_of resp ''status'' = Some (JStr ''success''))
               = (\<forall>kv\<in>set items.
                    strip (py_str (py_get data (fst kv))) = strip (py_str (snd kv)))
           \<and> (map_of resp ''status'' = Some (JStr ''failure''))
               = (\<exists>kv\<in>set items.
                    strip (py_str (py_get data (fst kv))) \<noteq> strip (py_str (snd kv)))"
proof -
  note v = validate_reaches_comparison[OF assms(1-11), of now]
  note c = compare_loop_outcome[OF assms(4,12,13), of now "JStr c" cls data items]
  have ex: "list_ex (field_differs data) items
            = (\<exists>kv\<in>set items. strip (py_str (py_get data (fst kv))) \<noteq> strip (py_str (snd kv)))"
    by (simp add: list_ex_iff field_differs_def)
  show ?thesis
  proof (cases "list_ex (field_differs data) items")
    case True
    with v c have "validate self teams now data
        = (Inr (incorrect_answer (JStr c) p (penalty cls)
                  (JInt (int_val (total_points_of team) - penalty cls))),
           snd (update_score teams now team_id False (penalty cls) p))" by simp
    moreover from True ex
    have "\<exists>kv\<in>set items. strip (py_str (py_get data (fst kv))) \<noteq> strip (py_str (snd kv))"
      by simp
    ultimately show ?thesis by (auto simp: incorrect_answer_def)
  next
    case False
    with v c have "validate self teams now data
        = (Inr (correct_answer (JStr c) p (points cls)
                  (JInt (int_val (total_points_of team) + points cls))),
           snd (update_score teams now team_id True (points cls) p))" by simp
    moreover from False ex
    have "\<forall>kv\<in>set items. strip (py_str (py_get data (fst kv))) = strip (py_str (snd kv))"
      by simp
    ultimately show ?thesis by (auto simp: correct_answer_def)
  qed
qed

text \<open>
  C10 at a team whose expected flag is the string \<^verbatim>\<open>42\<close> and a submission whose flag is
  the number 42: the submission succeeds.
\<close>

theorem validate_compares_str_renderings_witness:
  "strip (py_str (JInt 42)) = strip (py_str (JStr ''42''))
   \<and> (\<exists>resp teams'.
      validate
        \<lparr>challenges_id = [''2'' \<mapsto> ''RandomSequence''],
         challenges_classes =
           [''2'' \<mapsto> \<lparr>challenge_id = JStr ''2'', points = 50, penalty = 30, hints = []\<rparr>]\<rparr>
        [new_team 0 (JStr ''T1'') ''A'' @
         [(''data_to_validate'', JObj [(''RandomSequence'', JObj [(''flag'', JStr ''42'')])])]]
        \<lparr>year = 2024, month = 5, day = 17, hour = 10, minute = 30, second = 0, microsecond = 0\<rparr>
        [(''team_id'', JStr ''T1''), (''challenge_id'', JStr ''2''), (''flag'', JInt 42)]
      = (Inr resp, teams')
      \<and> map_of resp ''status'' = Some (JStr ''success''))"
proof -
  let ?cls = "\<lparr>challenge_id = JStr ''2'', points = 50, penalty = 30, hints = []\<rparr>"
  let ?self = "\<lparr>challenges_id = [''2'' \<mapsto> ''RandomSequence''],
                challenges_classes = [''2'' \<mapsto> ?cls]\<rparr>"
  let ?items = "[(''flag'', JStr ''42'')]"
  let ?team = "new_team 0 (JStr ''T1'') ''A'' @
         [(''data_to_validate'', JObj [(''RandomSequence'', JObj ?items)])]"
  let ?now = "\<lparr>year = 2024, month = 5, day = 17, hour = 10, minute = 30, second = 0,
               microsecond = 0\<rparr>"
  let ?data = "[(''team_id'', JStr ''T1''), (''challenge_id'', JStr ''2''), (''flag'', JInt 42)]"
  have eq: "strip (py_str (JInt 42)) = strip (py_str (JStr ''42''))"
    by (simp add: py_str_def str_int_def digit_char_def strip_def isspace_def)
  have d: "py_get ?data ''team_id'' = JStr ''T1''" "py_get ?data ''challenge_id'' = JStr ''2''"
    "JStr ''T1'' \<noteq> JNull" "get_team [?team] (JStr ''T1'') = Some ?team"
    "challenges_id ?self ''2'' = Some ''RandomSequence''"
    "challenges_classes ?self ''2'' = Some ?cls"
    "cleared_of ?team = JList []" "JStr ''RandomSequence'' \<notin> set []"
    "data_to_validate_of ?team ''RandomSequence'' = JObj ?items" "?items \<noteq> []"
    "\<forall>k\<in>set (map fst ?items). py_has_key ?data k"
    "wf_team ?team" "field_name ''RandomSequence''"
    by (simp_all add: get_team_def find_one_def matches_def cleared_of_def new_team_def
          py_get_def py_get_default_def data_to_validate_of_def get_nested_value_def
          py_has_key_def wf_team_def field_name_def)
  have m: "\<forall>kv\<in>set ?items. strip (py_str (py_get ?data (fst kv))) = strip (py_str (snd kv))"
    using eq by (simp add: py_get_def py_get_default_def)
  from validate_compares_str_renderings[OF d, where now = ?now] m
  have "\<exists>resp teams'. validate ?self [?team] ?now ?data = (Inr resp, teams')
          \<and> map_of resp ''status'' = Some (JStr ''success'')"
    by blast
  with eq show ?thesis by blast
qed

section \<open>\<^verbatim>\<open>get_hint\<close>\<close>

lemma hinted_reads:
  assumes wf: "wf_team team" and p: "field_name p"
    and m: "map_of team' = (scored (map_of team) now False (- cost) p)
                 (''hints'' \<mapsto> bump p 1 (map_of team ''hints''))"
  shows "total_points_of team' = JInt (int_val (total_points_of team) - cost)"
    and "points_of team' p = JInt (int_val (points_of team p) - cost)"
    and "hints_taken_of team' p = JInt (int_val (hints_taken_of team p) + 1)"
    and "cleared_of team' = cleared_of team"
proof -
  from apply_update_operation[OF wf p, of now False "- cost"] obtain team1
    where m1: "map_of team1 = scored (map_of team) now False (- cost) p" by blast
  note r = scored_reads[OF wf p m1]
  from wf_scored[OF wf m1] have wf1: "wf_team team1" .
  have "total_points_of team' = total_points_of team1"
    by (simp add: total_points_of_def py_get_default_def m m1)
  with r(2) show "total_points_of team' = JInt (int_val (total_points_of team) - cost)"
    by simp
  have same: "map_of team' ''points'' = map_of team1 ''points''" by (simp add: m m1)
  from wf1 have "dict_field (map_of team1 ''points'')"
    by (simp add: wf_team_def int_counters_dict)
  from read_same[OF field_names(1) p this same] r(1)
  show "points_of team' p = JInt (int_val (points_of team p) - cost)"
    by (simp add: points_of_def)
  from wf have h: "int_counters (map_of team ''hints'')" by (simp add: wf_team_def)
  have "map_of team' ''hints'' = Some (bump p 1 (map_of team ''hints''))" by (simp add: m)
  from read_bump[OF field_names(7) p h this]
  show "hints_taken_of team' p = JInt (int_val (hints_taken_of team p) + 1)"
    by (simp add: hints_taken_of_def)
  have "cleared_of team' = cleared_of team1"
    by (simp add: cleared_of_def py_get_def py_get_default_def m m1)
  with r(8) show "cleared_of team' = cleared_of team" by simp
qed

lemma get_hint_in_range:
  assumes "team_id \<noteq> JNull" "get_team teams team_id = Some team"
    and "challenges_id self c = Some p" "challenges_classes self c = Some cls"
    and "cleared_of team = JList xs" "JStr p \<notin> set xs"
    and "1 \<le> hint_no" "hint_no \<le> int (length (hints cls))"
    and "hints cls ! nat (hint_no - 1) = (cost, text)"
    and "hints_taken_of team p = JInt taken"
  shows "get_hint self teams now team_id (JStr c) hint_no =
     (if taken + 1 \<ge> hint_no
      then (if taken + 1 = hint_no
            then (case py_add_int (total_points_of team) (- cost) of
                    Inl e \<Rightarrow> (Inl e, teams)
                  | Inr new_total \<Rightarrow>
                      (case update_hint_score teams now team_id p cost of
                         (Inl e, teams') \<Rightarrow> (Inl e, teams')
                       | (Inr _, teams') \<Rightarrow>
                           (Inr (AList.update ''total_score'' new_total
                                   (hint_response (JStr c) p hint_no text (total_points_of team)
                                    @ [(''hint_cost'', JInt cost)])),
                            teams')))
            else (Inr (hint_response (JStr c) p hint_no text (total_points_of team)), teams))
      else (Inr out_of_order, teams))"
proof -
  note ids = validate_ids_ok[OF assms(1,2,3)]
  from cleared_in[OF assms(5), of p] assms(6)
  have cl: "py_str_in p (py_get team ''cleared_challenges'') = Inr False" by simp
  from assms(10) have ht: "get_nested_value (JObj team) (''hints.'' @ p) (JInt 0) = JInt taken"
    by (simp add: hints_taken_of_def)
  from assms(7,8) have rng: "0 < hint_no \<and> hint_no \<le> int (length (hints cls))" by simp
  show ?thesis
    unfolding total_points_of_def
    using ht rng assms(9)
    by (simp add: get_hint_def assms(2,3,4) ids cl py_index_def Let_def)
qed

text \<open>
  C2. For a challenge the team has not cleared and a hint number within the hints of the
  challenge, with \<^verbatim>\<open>taken\<close> the number of hints the record counts: a hint number up to
  \<^verbatim>\<open>taken\<close> gets the hint again, with the total as it stands and the collection unchanged;
  the number \<^verbatim>\<open>taken + 1\<close> gets the hint, one call of \<^verbatim>\<open>update_hint_score\<close> with the hint's
  cost, after which the total and the challenge's points are lower by the cost and the
  count of hints is one higher; a larger number gets the failure about sequential order,
  and the collection is unchanged.
\<close>

theorem get_hint_sequential:
  assumes "team_id \<noteq> JNull" "get_team teams team_id = Some team"
    and "challenges_id self c = Some p" "challenges_classes self c = Some cls"
    and "cleared_of team = JList xs" "JStr p \<notin> set xs"
    and "1 \<le> hint_no" "hint_no \<le> int (length (hints cls))"
    and "hints cls ! nat (hint_no - 1) = (cost, text)"
    and "hints_taken_of team p = JInt taken"
    and "wf_team team" "field_name p"
  shows "(hint_no \<le> taken \<longrightarrow>
            get_hint self teams now team_id (JStr c) hint_no
            = (Inr (hint_response (JStr c) p hint_no text (total_points_of team)), teams))
         \<and> (hint_no = taken + 1 \<longrightarrow>
            (\<exists>resp teams' team'.
               get_hint self teams now team_id (JStr c) hint_no = (Inr resp, teams')
               \<and> update_hint_score teams now team_id p cost = (Inr (), teams')
               \<and> map_of resp ''hint'' = Some (JStr text)
               \<and> map_of resp ''hint_cost'' = Some (JInt cost)
               \<and> map_of resp ''total_score''
                   = Some (JInt (int_val (total_points_of team) - cost))
               \<and> get_team teams' team_id = Some team'
               \<and> total_points_of team' = JInt (int_val (total_points_of team) - cost)
               \<and> points_of team' p = JInt (int_val (points_of team p) - cost)
               \<and> hints_taken_of team' p = JInt (taken + 1)))
         \<and> (hint_no > taken + 1 \<longrightarrow>
            get_hint self teams now team_id (JStr c) hint_no = (Inr out_of_order, teams)
            \<and> map_of out_of_order ''status'' = Some (JStr ''failure''))"
proof (intro conjI impI)
  note g = get_hint_in_range[OF assms(1-10), of now]
  {
    assume "hint_no \<le> taken"
    with g show "get_hint self teams now team_id (JStr c) hint_no
            = (Inr (hint_response (JStr c) p hint_no text (total_points_of team)), teams)"
      by simp
  next
    assume next_hint: "hint_no = taken + 1"
    from update_hint_score_found[OF assms(2,11,12), of now cost] obtain teams' team'
      where u: "update_hint_score teams now team_id p cost = (Inr (), teams')"
        and g': "get_team teams' team_id = Some team'"
        and m: "map_of team' = (scored (map_of team) now False (- cost) p)
                 (''hints'' \<mapsto> bump p 1 (map_of team ''hints''))" by blast
    note r = hinted_reads[OF assms(11,12) m]
    let ?resp = "AList.update ''total_score'' (JInt (int_val (total_points_of team) - cost))
        (hint_response (JStr c) p hint_no text (total_points_of team)
         @ [(''hint_cost'', JInt cost)])"
    from g next_hint u py_add_total[OF assms(11), of "- cost"]
    have "get_hint self teams now team_id (JStr c) hint_no = (Inr ?resp, teams')" by simp
    moreover have "map_of ?resp ''hint'' = Some (JStr text)"
      "map_of ?resp ''hint_cost'' = Some (JInt cost)"
      "map_of ?resp ''total_score'' = Some (JInt (int_val (total_points_of team) - cost))"
      by (simp_all add: hint_response_def)
    moreover from r(3) assms(10)
    have "hints_taken_of team' p = JInt (taken + 1)" by (simp add: int_val_def)
    ultimately show "\<exists>resp teams' team'.
               get_hint self teams now team_id (JStr c) hint_no = (Inr resp, teams')
               \<and> update_hint_score teams now team_id p cost = (Inr (), teams')
               \<and> map_of resp ''hint'' = Some (JStr text)
               \<and> map_of resp ''hint_cost'' = Some (JInt cost)
               \<and> map_of resp ''total_score''
                   = Some (JInt (int_val (total_points_of team) - cost))
               \<and> get_team teams' team_id = Some team'
               \<and> total_points_of team' = JInt (int_val (total_points_of team) - cost)
               \<and> points_of team' p = JInt (int_val (points_of team p) - cost)
               \<and> hints_taken_of team' p = JInt (taken + 1)"
      using u g' r(1,2) by blast
  next
    assume "hint_no > taken + 1"
    with g show "get_hint self teams now team_id (JStr c) hint_no = (Inr out_of_order, teams)"
      by simp
  next
    show "map_of out_of_order ''status'' = Some (JStr ''failure'')"
      by (simp add: out_of_order_def)
  }
qed

text \<open>
  C2 at a challenge with two hints, costing 200 and 100: a team that has taken the first
  hint asks for it again; a fresh team asks for the first hint; a fresh team asks for the
  second hint.
\<close>

theorem get_hint_sequential_witness:
  "get_hint
     \<lparr>challenges_id = [''5'' \<mapsto> ''TooMuchLight''],
      challenges_classes =
        [''5'' \<mapsto> \<lparr>challenge_id = JStr ''5'', points = 500, penalty = 100,
                   hints = [(200, ''Adjust the brightness''), (100, ''Look closer'')]\<rparr>]\<rparr>
     [[(''team_id'', JStr ''T2''), (''total_attempts'', JObj [(''TooMuchLight'', JInt 1)]),
       (''incorrect_attempts'', JObj [(''TooMuchLight'', JInt 1)]),
       (''cleared_challenges'', JList []), (''points'', JObj [(''TooMuchLight'', JInt (- 200))]),
       (''total_points'', JInt (- 200)), (''time'', JObj []),
       (''hints'', JObj [(''TooMuchLight'', JInt 1)])]]
     \<lparr>year = 2024, month = 5, day = 17, hour = 10, minute = 30, second = 0, microsecond = 0\<rparr>
     (JStr ''T2'') (JStr ''5'') 1
   = (Inr [(''challenge_id'', JStr ''5''), (''challenge_name'', JStr ''TooMuchLight''),
           (''status'', JStr ''sucess''), (''hint_no'', JInt 1),
           (''hint'', JStr ''Adjust the brightness''), (''total_score'', JInt (- 200))],
      [[(''team_id'', JStr ''T2''), (''total_attempts'', JObj [(''TooMuchLight'', JInt 1)]),
        (''incorrect_attempts'', JObj [(''TooMuchLight'', JInt 1)]),
        (''cleared_challenges'', JList []), (''points'', JObj [(''TooMuchLight'', JInt (- 200))]),
        (''total_points'', JInt (- 200)), (''time'', JObj []),
        (''hints'', JObj [(''TooMuchLight'', JInt 1)])]])
   \<and> (\<exists>resp teams' team'.
        get_hint
          \<lparr>challenges_id = [''5'' \<mapsto> ''TooMuchLight''],
           challenges_classes =
             [''5'' \<mapsto> \<lparr>challenge_id = JStr ''5'', points = 500, penalty = 100,
                        hints = [(200, ''Adjust the brightness''), (100, ''Look closer'')]\<rparr>]\<rparr>
          [new_team 0 (JStr ''T1'') ''A'']
          \<lparr>year = 2024, month = 5, day = 17, hour = 10, minute = 30, second = 0, microsecond = 0\<rparr>
          (JStr ''T1'') (JStr ''5'') 1
        = (Inr resp, teams')
        \<and> map_of resp ''hint'' = Some (JStr ''Adjust the brightness'')
        \<and> map_of resp ''hint_cost'' = Some (JInt 200)
        \<and> map_of resp ''total_score'' = Some (JInt (- 200))
        \<and> get_team teams' (JStr ''T1'') = Some team'
        \<and> total_points_of team' = JInt (- 200)
        \<and> hints_taken_of team' ''TooMuchLight'' = JInt 1)
   \<and> get_hint
     \<lparr>challenges_id = [''5'' \<mapsto> ''TooMuchLight''],
      challenges_classes =
        [''5'' \<mapsto> \<lparr>challenge_id = JStr ''5'', points = 500, penalty = 100,
                   hints = [(200, ''Adjust the brightness''), (100, ''Look closer'')]\<rparr>]\<rparr>
     [new_team 0 (JStr ''T1'') ''A'']
     \<lparr>year = 2024, month = 5, day = 17, hour = 10, minute = 30, second = 0, microsecond = 0\<rparr>
     (JStr ''T1'') (JStr ''5'') 2
   = (Inr [(''status'', JStr ''failure''),
           (''message'',
            JList [JStr (''Hint request must follow sequential order.'' @
                         ''Middle hints cannot be requested.'')])],
      [new_team 0 (JStr ''T1'') ''A''])"
proof -
  let ?cls = "\<lparr>challenge_id = JStr ''5'', points = 500, penalty = 100,
                   hints = [(200, ''Adjust the brightness''), (100, ''Look closer'')]\<rparr>"
  let ?self = "\<lparr>challenges_id = [''5'' \<mapsto> ''TooMuchLight''],
                challenges_classes = [''5'' \<mapsto> ?cls]\<rparr>"
  let ?now = "\<lparr>year = 2024, month = 5, day = 17, hour = 10, minute = 30, second = 0,
               microsecond = 0\<rparr>"
  let ?t1 = "new_team 0 (JStr ''T1'') ''A''"
  let ?t2 = "[(''team_id'', JStr ''T2''), (''total_attempts'', JObj [(''TooMuchLight'', JInt 1)]),
       (''incorrect_attempts'', JObj [(''TooMuchLight'', JInt 1)]),
       (''cleared_challenges'', JList []), (''points'', JObj [(''TooMuchLight'', JInt (- 200))]),
       (''total_points'', JInt (- 200)), (''time'', JObj []),
       (''hints'', JObj [(''TooMuchLight'', JInt 1)])]"
  have r: "challenges_id ?self ''5'' = Some ''TooMuchLight''"
    "challenges_classes ?self ''5'' = Some ?cls"
    by simp_all
  have n: "field_name ''TooMuchLight''" by (simp add: field_name_def)
  have e: "JStr ''TooMuchLight'' \<notin> set []" by simp
  have a1: "JStr ''T1'' \<noteq> JNull" "get_team [?t1] (JStr ''T1'') = Some ?t1"
    and c1: "cleared_of ?t1 = JList []"
    and h1: "hints_taken_of ?t1 ''TooMuchLight'' = JInt 0"
    and w1: "wf_team ?t1"
    and s1: "total_points_of ?t1 = JInt 0"
    by (simp_all add: get_team_def find_one_def matches_def cleared_of_def new_team_def
          py_get_def py_get_default_def hints_taken_of_def get_nested_value_def wf_team_def
          total_points_of_def)
  have a2: "JStr ''T2'' \<noteq> JNull" "get_team [?t2] (JStr ''T2'') = Some ?t2"
    and c2: "cleared_of ?t2 = JList []"
    and h2: "hints_taken_of ?t2 ''TooMuchLight'' = JInt 1"
    and w2: "wf_team ?t2"
    and s2: "total_points_of ?t2 = JInt (- 200)"
    by (simp_all add: get_team_def find_one_def matches_def cleared_of_def
          py_get_def py_get_default_def hints_taken_of_def get_nested_value_def wf_team_def
          total_points_of_def)
  have i1: "(1::int) \<le> 1" "1 \<le> int (length (hints ?cls))"
    "hints ?cls ! nat (1 - 1) = (200, ''Adjust the brightness'')"
    and i2: "(1::int) \<le> 2" "2 \<le> int (length (hints ?cls))"
    "hints ?cls ! nat (2 - 1) = (100, ''Look closer'')"
    by simp_all
  from get_hint_sequential[OF a2 r c2 e i1 h2 w2 n, where now = ?now]
  have "get_hint ?self [?t2] ?now (JStr ''T2'') (JStr ''5'') 1
        = (Inr (hint_response (JStr ''5'') ''TooMuchLight'' 1 ''Adjust the brightness''
                  (JInt (- 200))), [?t2])"
    by (simp add: s2)
  moreover from get_hint_sequential[OF a1 r c1 e i1 h1 w1 n, where now = ?now]
  have "\<exists>resp teams' team'.
        get_hint ?self [?t1] ?now (JStr ''T1'') (JStr ''5'') 1 = (Inr resp, teams')
        \<and> map_of resp ''hint'' = Some (JStr ''Adjust the brightness'')
        \<and> map_of resp ''hint_cost'' = Some (JInt 200)
        \<and> map_of resp ''total_score'' = Some (JInt (- 200))
        \<and> get_team teams' (JStr ''T1'') = Some team'
        \<and> total_points_of team' = JInt (- 200)
        \<and> hints_taken_of team' ''TooMuchLight'' = JInt 1"
    by (auto simp: s1 int_val_def)
  moreover from get_hint_sequential[OF a1 r c1 e i2 h1 w1 n, where now = ?now]
  have "get_hint ?self [?t1] ?now (JStr ''T1'') (JStr ''5'') 2 = (Inr out_of_order, [?t1])"
    by simp
  ultimately show ?thesis by (simp add: hint_response_def out_of_order_def)
qed

section \<open>\<^verbatim>\<open>generate_full_question\<close>\<close>

lemma hints_list_from:
  "map (\<lambda>(index, (hint_points, _)).
          JObj [(''hint_no'', JInt (int index + 1)), (''points'', JInt hint_points)])
       (enumerate n hs)
   = map (\<lambda>(index, hint_points).
            JObj [(''hint_no'', JInt (int index + 1)), (''points'', JInt hint_points)])
         (enumerate n (map fst hs))"
  by (induction hs arbitrary: n) (auto split: prod.splits)

lemma hints_list_costs:
  "hints_list_of self
   = map (\<lambda>(index, hint_points).
            JObj [(''hint_no'', JInt (int index + 1)), (''points'', JInt hint_points)])
         (enumerate 0 (map fst (hints self)))"
  by (simp add: hints_list_of_def hints_list_from)

text \<open>
  C5, as the code has it. The decorated question holds, under \<^verbatim>\<open>hints\<close>, the number of
  hints and for each hint its ordinal \<^verbatim>\<open>hint_no\<close> and its cost \<^verbatim>\<open>points\<close>; the hint texts
  are left out: two challenges that differ in the texts of their hints only decorate a
  question alike.
\<close>

theorem generate_full_question_hints:
  "map_of (generate_full_question self question) ''hints''
     = Some (JObj [(''count'', JInt (int (length (hints self)))),
                   (''hints_list'',
                    JList (map (\<lambda>(index, hint_points).
                                  JObj [(''hint_no'', JInt (int index + 1)),
                                        (''points'', JInt hint_points)])
                               (enumerate 0 (map fst (hints self)))))])
   \<and> (map fst (hints other) = map fst (hints self)
        \<and> challenge_id other = challenge_id self
        \<and> points other = points self \<and> penalty other = penalty self
      \<longrightarrow> generate_full_question other question = generate_full_question self question)"
proof (intro conjI impI)
  show "map_of (generate_full_question self question) ''hints''
     = Some (JObj [(''count'', JInt (int (length (hints self)))),
                   (''hints_list'',
                    JList (map (\<lambda>(index, hint_points).
                                  JObj [(''hint_no'', JInt (int index + 1)),
                                        (''points'', JInt hint_points)])
                               (enumerate 0 (map fst (hints self)))))])"
    by (simp add: generate_full_question_def dict_union_def update_conv' hints_list_costs)
next
  assume a: "map fst (hints other) = map fst (hints self)
        \<and> challenge_id other = challenge_id self
        \<and> points other = points self \<and> penalty other = penalty self"
  then have "hints_list_of other = hints_list_of self"
    by (simp add: hints_list_costs)
  moreover from a have "length (hints other) = length (hints self)"
    using length_map[of fst "hints other"] length_map[of fst "hints self"] by simp
  ultimately show "generate_full_question other question = generate_full_question self question"
    using a by (simp add: generate_full_question_def)
qed

text \<open>
  C5 at the challenge \<^verbatim>\<open>NeedleInTheHaystack\<close> and at a copy of it with another hint text.
\<close>

theorem generate_full_question_hints_witness:
  "map_of (generate_full_question
             \<lparr>challenge_id = JStr ''1'', points = 400, penalty = 50,
              hints = [(200, ''Extract all the strings'')]\<rparr>
             [(''title'', JStr ''Needle In The Haystack'')]) ''hints''
     = Some (JObj [(''count'', JInt 1),
                   (''hints_list'', JList [JObj [(''hint_no'', JInt 1), (''points'', JInt 200)]])])
   \<and> generate_full_question
        \<lparr>challenge_id = JStr ''1'', points = 400, penalty = 50, hints = [(200, ''Another text'')]\<rparr>
        [(''title'', JStr ''Needle In The Haystack'')]
     = generate_full_question
        \<lparr>challenge_id = JStr ''1'', points = 400, penalty = 50,
         hints = [(200, ''Extract all the strings'')]\<rparr>
        [(''title'', JStr ''Needle In The Haystack'')]"
  using generate_full_question_hints
          [of "\<lparr>challenge_id = JStr ''1'', points = 400, penalty = 50,
                hints = [(200, ''Extract all the strings'')]\<rparr>"
              "[(''title'', JStr ''Needle In The Haystack'')]"
              "\<lparr>challenge_id = JStr ''1'', points = 400, penalty = 50,
                hints = [(200, ''Another text'')]\<rparr>"]
  by (simp add: enumerate_eq_zip)

text \<open>
  C5, as stated, has the ordinal as the only detail of a hint in the payload. For
  \<^verbatim>\<open>NeedleInTheHaystack\<close> the entry of its hint also carries the cost, 200.
\<close>

theorem generate_full_question_shows_cost:
  "hints_list_of \<lparr>challenge_id = JStr ''1'', points = 400, penalty = 50,
                  hints = [(200, ''Extract all the strings'')]\<rparr>
     = [JObj [(''hint_no'', JInt 1), (''points'', JInt 200)]]
   \<and> hints_list_of \<lparr>challenge_id = JStr ''1'', points = 400, penalty = 50,
                    hints = [(200, ''Extract all the strings'')]\<rparr>
     \<noteq> [JObj [(''hint_no'', JInt 1)]]
   \<and> map_of (generate_full_question
               \<lparr>challenge_id = JStr ''1'', points = 400, penalty = 50,
                hints = [(200, ''Extract all the strings'')]\<rparr>
               [(''title'', JStr ''Needle In The Haystack'')]) ''hints''
     = Some (JObj [(''count'', JInt 1),
                   (''hints_list'', JList [JObj [(''hint_no'', JInt 1), (''points'', JInt 200)]])])"
  by (simp add: generate_full_question_def dict_union_def update_conv' hints_list_of_def
        enumerate_eq_zip)

section \<open>The total and the points of the challenges\<close>

lemma sum_update:
  "sum_list (map (\<lambda>kv. g (snd kv)) (AList.update p v m))
   = sum_list (map (\<lambda>kv. g (snd kv)) m) - (case map_of m p of None \<Rightarrow> 0 | Some w \<Rightarrow> g w)
     + (g v :: int)"
  by (induction m) auto

lemma sum_over_keys:
  "distinct (map fst m) \<Longrightarrow>
   sum_list (map (\<lambda>kv. g (snd kv)) m)
   = (\<Sum>k\<in>set (map fst m). (g (py_get_default m k d) :: int))"
proof (induction m)
  case Nil
  show ?case by simp
next
  case (Cons kv m)
  obtain k v where kv: "kv = (k, v)" by (cases kv)
  from Cons.prems kv have k: "k \<notin> fst ` set m" and dist: "distinct (map fst m)" by simp_all
  have "(\<Sum>k'\<in>fst ` set m. g (py_get_default ((k, v) # m) k' d))
        = (\<Sum>k'\<in>fst ` set m. g (py_get_default m k' d))"
    using k by (intro sum.cong) (auto simp: py_get_default_def)
  with Cons.IH[OF dist] k kv show ?case
    by (simp add: py_get_default_def)
qed

lemma keys_update:
  "list_all P (map fst m) \<Longrightarrow> P k \<Longrightarrow> list_all P (map fst (AList.update k v m))"
  by (induction m) auto

lemma score_inv_new_team: "score_inv (new_team count team_id team_name)"
  by (simp add: score_inv_def wf_team_def points_dict_def total_points_of_def
        py_get_default_def new_team_def)

lemma score_inv_scored:
  assumes inv: "score_inv team" and p: "field_name p"
    and m: "map_of team' = scored (map_of team) now is_correct n p"
  shows "score_inv team'"
proof -
  from inv have wf: "wf_team team" by (simp add: score_inv_def)
  then have "int_counters (map_of team ''points'')" by (simp add: wf_team_def)
  from int_counters_cases[OF this] obtain pm
    where pm: "map_of team ''points'' = Some (JObj pm)"
      and ints: "list_all is_int (map snd pm)" by blast
  let ?k = "int_val (py_get_default pm p (JInt 0))"
  have old: "points_dict team = pm" by (simp add: points_dict_def pm)
  have new: "points_dict team' = AList.update p (JInt (?k + n)) pm"
    by (simp add: points_dict_def m scored_def Let_def pm bump_def)
  from inv old have dist: "distinct (map fst pm)" and names: "list_all field_name (map fst pm)"
    and total: "total_points_of team = JInt (sum_list (map (\<lambda>kv. int_val (snd kv)) pm))"
    by (simp_all add: score_inv_def)
  have "(case map_of pm p of None \<Rightarrow> 0 | Some w \<Rightarrow> int_val w) = ?k"
    by (simp add: py_get_default_def int_val_def split: option.splits)
  with sum_update[of int_val p "JInt (?k + n)" pm]
  have "sum_list (map (\<lambda>kv. int_val (snd kv)) (AList.update p (JInt (?k + n)) pm))
        = sum_list (map (\<lambda>kv. int_val (snd kv)) pm) + n"
    by (simp add: int_val_def)
  moreover from scored_reads(2)[OF wf p m] total
  have "total_points_of team' = JInt (sum_list (map (\<lambda>kv. int_val (snd kv)) pm) + n)"
    by (simp add: int_val_def)
  ultimately show ?thesis
    using wf_scored[OF wf m] dist names p
    by (simp add: score_inv_def new distinct_update keys_update)
qed

lemma score_inv_update_operation:
  assumes "field_name p" "score_inv d" "apply_ops (update_operation now is_correct n p) d = Inr d'"
  shows "score_inv d'"
proof -
  from assms(2) have wf: "wf_team d" by (simp add: score_inv_def)
  from apply_update_operation[OF wf assms(1), of now is_correct n] assms(3)
  have "map_of d' = scored (map_of d) now is_correct n p" by auto
  from score_inv_scored[OF assms(2,1) this] show ?thesis .
qed

lemma score_inv_hint:
  assumes "field_name p" "score_inv d" "apply_ops [Inc (''hints.'' @ p) 1] d = Inr d'"
  shows "score_inv d'"
proof -
  from assms(2) have wf: "wf_team d" by (simp add: score_inv_def)
  then have "int_counters (map_of d ''hints'')" by (simp add: wf_team_def)
  from apply_inc_nested[OF field_names(7) assms(1) this, of 1] assms(3)
  have d': "d' = AList.update ''hints'' (bump p 1 (map_of d ''hints'')) d" by simp
  have "wf_team d'"
    using wf by (simp add: d' wf_team_def update_conv' int_counters_bump)
  moreover have "points_dict d' = points_dict d" "total_points_of d' = total_points_of d"
    by (simp_all add: d' points_dict_def total_points_of_def py_get_default_def update_conv')
  ultimately show ?thesis using assms(2) by (simp add: score_inv_def)
qed

lemma update_score_keeps:
  assumes "field_name p" "list_all score_inv teams"
  shows "list_all score_inv (snd (update_score teams now team_id is_correct pts p))"
proof (cases "get_team teams team_id")
  case None
  with assms(2) show ?thesis by (simp add: update_score_def)
next
  case (Some team)
  let ?n = "if is_correct then pts else - pts"
  from update_one_keeps[of score_inv "update_operation now is_correct ?n p" teams team_id,
      OF score_inv_update_operation[OF assms(1)] assms(2)]
  show ?thesis using Some by (simp add: update_score_def Let_def)
qed

lemma update_hint_score_keeps:
  assumes "field_name p" "list_all score_inv teams"
  shows "list_all score_inv (snd (update_hint_score teams now team_id p pts))"
proof -
  obtain r teams1 where u: "update_score teams now team_id False pts p = (r, teams1)"
    by (cases "update_score teams now team_id False pts p")
  from update_score_keeps[OF assms, of now team_id False pts] u
  have k1: "list_all score_inv teams1" by simp
  show ?thesis
  proof (cases r)
    case (Inl e)
    with u k1 show ?thesis by (simp add: update_hint_score_def)
  next
    case (Inr x)
    from update_one_keeps[of score_inv "[Inc (''hints.'' @ p) 1]" teams1 team_id,
        OF score_inv_hint[OF assms(1)] k1]
    show ?thesis using u Inr by (simp add: update_hint_score_def)
  qed
qed

lemma reachable_score_inv: "reachable teams \<Longrightarrow> list_all score_inv teams"
proof (induction rule: reachable.induct)
  case empty
  show ?case by simp
next
  case (create teams team_id team_name)
  then show ?case by (simp add: create_team_def Let_def score_inv_new_team)
next
  case (score teams p now team_id is_correct pts)
  from update_score_keeps[OF score.hyps(2) score.IH] show ?case .
next
  case (hint teams p now team_id pts)
  from update_hint_score_keeps[OF hint.hyps(2) hint.IH] show ?case .
qed

text \<open>Every record of such a collection has the shape that the theorems above assume.\<close>

lemma reachable_wf_team: "reachable teams \<Longrightarrow> team \<in> set teams \<Longrightarrow> wf_team team"
  using reachable_score_inv[of teams] by (simp add: list_all_iff score_inv_def)

lemma score_inv_total:
  assumes "score_inv team"
  shows "total_points_of team
         = JInt (\<Sum>p\<in>set (map fst (points_dict team)). int_val (points_of team p))"
proof -
  from assms have wf: "wf_team team" and dist: "distinct (map fst (points_dict team))"
    and names: "list_all field_name (map fst (points_dict team))"
    and total: "total_points_of team
                = JInt (sum_list (map (\<lambda>kv. int_val (snd kv)) (points_dict team)))"
    by (simp_all add: score_inv_def)
  from wf have "int_counters (map_of team ''points'')" by (simp add: wf_team_def)
  from int_counters_cases[OF this] obtain pm
    where pm: "map_of team ''points'' = Some (JObj pm)" by blast
  have old: "points_dict team = pm" by (simp add: points_dict_def pm)
  have "(\<Sum>p\<in>set (map fst pm). int_val (points_of team p))
        = (\<Sum>p\<in>set (map fst pm). int_val (py_get_default pm p (JInt 0)))"
  proof (intro sum.cong refl)
    fix p assume "p \<in> set (map fst pm)"
    with names old have "field_name p" by (auto simp: list_all_iff)
    from nested_read[OF field_names(1) this pm, of "JInt 0"]
    show "int_val (points_of team p) = int_val (py_get_default pm p (JInt 0))"
      by (simp add: points_of_def)
  qed
  with sum_over_keys[of pm int_val "JInt 0"] dist total old show ?thesis by simp
qed

text \<open>
  C9. In every collection that \<^verbatim>\<open>create_team\<close>, \<^verbatim>\<open>update_score\<close> and
  \<^verbatim>\<open>update_hint_score\<close> build from the empty one, the total of every team record is the
  sum, over the challenges with an entry in its points, of the points of the challenge.
\<close>

theorem total_is_sum_of_points:
  assumes "reachable teams" "team \<in> set teams"
  shows "total_points_of team
         = JInt (\<Sum>p\<in>set (map fst (points_dict team)). int_val (points_of team p))"
proof -
  from reachable_score_inv[OF assms(1)] assms(2) have "score_inv team"
    by (simp add: list_all_iff)
  from score_inv_total[OF this] show ?thesis .
qed

text \<open>
  C9 at the collection of one team that clears \<^verbatim>\<open>Base69\<close> for 200 points and then takes
  the hint of \<^verbatim>\<open>NeedleInTheHaystack\<close> for 200: the total is 0.
\<close>

theorem total_is_sum_of_points_witness:
  "reachable
     (snd (update_hint_score
        (snd (update_score (snd (create_team [] (JStr ''T1'') None))
           \<lparr>year = 2024, month = 5, day = 17, hour = 10, minute = 30, second = 0, microsecond = 0\<rparr>
           (JStr ''T1'') True 200 ''Base69''))
        \<lparr>year = 2024, month = 5, day = 17, hour = 10, minute = 45, second = 0, microsecond = 0\<rparr>
        (JStr ''T1'') ''NeedleInTheHaystack'' 200))
   \<and> snd (update_hint_score
        (snd (update_score (snd (create_team [] (JStr ''T1'') None))
           \<lparr>year = 2024, month = 5, day = 17, hour = 10, minute = 30, second = 0, microsecond = 0\<rparr>
           (JStr ''T1'') True 200 ''Base69''))
        \<lparr>year = 2024, month = 5, day = 17, hour = 10, minute = 45, second = 0, microsecond = 0\<rparr>
        (JStr ''T1'') ''NeedleInTheHaystack'' 200)
     = [[(''team_no'', JInt 0), (''team_id'', JStr ''T1''), (''team_name'', JStr ''Team - 0''),
         (''total_attempts'', JObj [(''Base69'', JInt 1), (''NeedleInTheHaystack'', JInt 1)]),
         (''incorrect_attempts'', JObj [(''Base69'', JInt 0), (''NeedleInTheHaystack'', JInt 1)]),
         (''cleared_challenges'', JList [JStr ''Base69'']),
         (''points'', JObj [(''Base69'', JInt 200), (''NeedleInTheHaystack'', JInt (- 200))]),
         (''total_points'', JInt 0),
         (''time'',
          JObj [(''Base69'',
                 JTime \<lparr>year = 2024, month = 5, day = 17, hour = 10, minute = 30, second = 0,
                        microsecond = 0\<rparr>)]),
         (''hints'', JObj [(''NeedleInTheHaystack'', JInt 1)]), (''questions'', JObj [])]]
   \<and> total_points_of
        [(''team_no'', JInt 0), (''team_id'', JStr ''T1''), (''team_name'', JStr ''Team - 0''),
         (''total_attempts'', JObj [(''Base69'', JInt 1), (''NeedleInTheHaystack'', JInt 1)]),
         (''incorrect_attempts'', JObj [(''Base69'', JInt 0), (''NeedleInTheHaystack'', JInt 1)]),
         (''cleared_challenges'', JList [JStr ''Base69'']),
         (''points'', JObj [(''Base69'', JInt 200), (''NeedleInTheHaystack'', JInt (- 200))]),
         (''total_points'', JInt 0),
         (''time'',
          JObj [(''Base69'',
                 JTime \<lparr>year = 2024, month = 5, day = 17, hour = 10, minute = 30, second = 0,
                        microsecond = 0\<rparr>)]),
         (''hints'', JObj [(''NeedleInTheHaystack'', JInt 1)]), (''questions'', JObj [])]
     = JInt (\<Sum>p\<in>{''Base69'', ''NeedleInTheHaystack''}.
               int_val (points_of
        [(''team_no'', JInt 0), (''team_id'', JStr ''T1''), (''team_name'', JStr ''Team - 0''),
         (''total_attempts'', JObj [(''Base69'', JInt 1), (''NeedleInTheHaystack'', JInt 1)]),
         (''incorrect_attempts'', JObj [(''Base69'', JInt 0), (''NeedleInTheHaystack'', JInt 1)]),
         (''cleared_challenges'', JList [JStr ''Base69'']),
         (''points'', JObj [(''Base69'', JInt 200), (''NeedleInTheHaystack'', JInt (- 200))]),
         (''total_points'', JInt 0),
         (''time'',
          JObj [(''Base69'',
                 JTime \<lparr>year = 2024, month = 5, day = 17, hour = 10, minute = 30, second = 0,
                        microsecond = 0\<rparr>)]),
         (''hints'', JObj [(''NeedleInTheHaystack'', JInt 1)]), (''questions'', JObj [])] p))"
proof -
  let ?t1 = "\<lparr>year = 2024, month = 5, day = 17, hour = 10, minute = 30, second = 0,
              microsecond = 0\<rparr>"
  let ?t2 = "\<lparr>year = 2024, month = 5, day = 17, hour = 10, minute = 45, second = 0,
              microsecond = 0\<rparr>"
  let ?db = "snd (update_hint_score
        (snd (update_score (snd (create_team [] (JStr ''T1'') None)) ?t1 (JStr ''T1'') True 200
                ''Base69''))
        ?t2 (JStr ''T1'') ''NeedleInTheHaystack'' 200)"
  let ?team = "[(''team_no'', JInt 0), (''team_id'', JStr ''T1''), (''team_name'', JStr ''Team - 0''),
         (''total_attempts'', JObj [(''Base69'', JInt 1), (''NeedleInTheHaystack'', JInt 1)]),
         (''incorrect_attempts'', JObj [(''Base69'', JInt 0), (''NeedleInTheHaystack'', JInt 1)]),
         (''cleared_challenges'', JList [JStr ''Base69'']),
         (''points'', JObj [(''Base69'', JInt 200), (''NeedleInTheHaystack'', JInt (- 200))]),
         (''total_points'', JInt 0),
         (''time'', JObj [(''Base69'', JTime ?t1)]),
         (''hints'', JObj [(''NeedleInTheHaystack'', JInt 1)]), (''questions'', JObj [])]"
  have n: "field_name ''Base69''" "field_name ''NeedleInTheHaystack''"
    by (simp_all add: field_name_def)
  have r: "reachable ?db"
    by (intro reachable.hint reachable.score reachable.create reachable.empty n)
  have db: "?db = [?team]"
    by (simp add: update_hint_score_def update_score_def create_team_def new_team_def
          get_team_def find_one_def matches_def update_one_def update_operation_def Let_def
          digit_char_def bson_datetime_def)
  then have mem: "?team \<in> set ?db" by simp
  have keys: "set (map fst (points_dict ?team)) = {''Base69'', ''NeedleInTheHaystack''}"
    by (simp add: points_dict_def)
  from total_is_sum_of_points[OF r mem] keys
  have "total_points_of ?team
        = JInt (\<Sum>p\<in>{''Base69'', ''NeedleInTheHaystack''}. int_val (points_of ?team p))"
    by simp
  with r db show ?thesis by simp
qed

end
